theory Spec2Isabelle
  imports Main "HOL-Library.Char_ord" "HOL-Library.List_Lexorder" "HOL-Library.Sublist"
begin

section \<open>Go library functions used by \<open>pkg/cfn/builder/iam_helper.go\<close>\<close>

text \<open>
  A Go \<open>string\<close> is a sequence of bytes; it is modelled as \<^typ>\<open>string\<close>, a list of
  \<^typ>\<open>char\<close>.  The only separators the program searches for are the one-byte runes
  \<open>'/'\<close> and \<open>':'\<close>, so a separator is a single \<^typ>\<open>char\<close>.

  \<open>strings.IndexRune(s, r)\<close>: the index of the first occurrence of \<open>r\<close> in \<open>s\<close>,
  or \<open>-1\<close> when there is none.
\<close>

fun IndexRune :: "string \<Rightarrow> char \<Rightarrow> int" where
  "IndexRune [] r = - 1"
| "IndexRune (c # s) r =
     (if c = r then 0
      else (let i = IndexRune s r in if i = - 1 then - 1 else i + 1))"

text \<open>
  \<open>strings.Split(s, sep)\<close> for a one-byte separator: cut \<open>s\<close> at every occurrence
  of \<open>sep\<close>.  The library's loop looks for the next separator, keeps the text before it
  and goes on behind it; the text left when no separator remains is the last element.
\<close>

function Split :: "string \<Rightarrow> char \<Rightarrow> string list" where
  "Split s sep =
     (let m = IndexRune s sep
      in if m < 0 then [s]
         else take (nat m) s # Split (drop (nat m + 1) s) sep)"
  by pat_completeness auto
termination
proof (relation "measure (\<lambda>(s, sep). length s)")
  show "wf (measure (\<lambda>(s, sep). length s))" by simp
next
  fix s :: string and sep :: char and m :: int
  assume "m = IndexRune s sep" and "\<not> m < 0"
  moreover have "IndexRune s sep < int (length s)"
    by (induction s) (auto simp: Let_def)
  ultimately show "((drop (nat m + 1) s, sep), (s, sep)) \<in> measure (\<lambda>(s, sep). length s)"
    by auto
qed

declare Split.simps [simp del]

text \<open>
  \<open>strings.SplitN(s, sep, n)\<close> for \<open>n \<ge> 0\<close>: at most \<open>n\<close> pieces, the last one being
  the unsplit rest; \<open>n = 0\<close> gives no piece at all.
\<close>

fun SplitN :: "string \<Rightarrow> char \<Rightarrow> nat \<Rightarrow> string list" where
  "SplitN s sep 0 = []"
| "SplitN s sep (Suc n) =
     (if n = 0 then [s]
      else (let m = IndexRune s sep
            in if m < 0 then [s]
               else take (nat m) s # SplitN (drop (nat m + 1) s) sep n))"

text \<open>\<open>strings.HasPrefix(s, prefix)\<close>.\<close>

definition HasPrefix :: "string \<Rightarrow> string \<Rightarrow> bool" where
  "HasPrefix s p \<longleftrightarrow> length p \<le> length s \<and> take (length p) s = p"

text \<open>
  An \<open>error\<close> value carries its message (\<open>errors.New\<close>, \<open>fmt.Errorf\<close>).
\<close>

datatype error = Error string

text \<open>
  \<open>arn.Parse\<close> of the AWS SDK (\<open>github.com/aws/aws-sdk-go/aws/arn\<close>), an external
  library: the text must start with \<open>arn:\<close> and split at colons into exactly six
  sections, the sixth being everything behind the fifth colon.
\<close>

record ARN =
  Partition :: string
  Service :: string
  Region :: string
  AccountID :: string
  Resource :: string

definition arn_Parse :: "string \<Rightarrow> error + ARN" where
  "arn_Parse arn =
     (if \<not> HasPrefix arn ''arn:'' then Inl (Error ''arn: invalid prefix'')
      else (let sections = SplitN arn (CHR '':'') 6
            in if length sections \<noteq> 6 then Inl (Error ''arn: not enough sections'')
               else Inr \<lparr>Partition = sections ! 1, Service = sections ! 2,
                         Region = sections ! 3, AccountID = sections ! 4,
                         Resource = sections ! 5\<rparr>))"

text \<open>
  \<open>sets.String\<close> of \<open>k8s.io/apimachinery\<close>: a set of strings.  \<open>Insert\<close> adds the
  given items, \<open>Delete\<close> removes one, and \<open>List\<close> returns the members as a sorted slice
  (\<open>sort.Strings\<close>: bytewise lexicographic order, which is the order of \<^typ>\<open>string\<close>
  here).
\<close>

definition sets_NewString :: "string set" where
  "sets_NewString = {}"

definition sets_Insert :: "string set \<Rightarrow> string list \<Rightarrow> string set" where
  "sets_Insert s items = s \<union> set items"

definition sets_Delete :: "string set \<Rightarrow> string \<Rightarrow> string set" where
  "sets_Delete s item = s - {item}"

definition sets_List :: "string set \<Rightarrow> string list" where
  "sets_List s = sorted_list_of_set s"

section \<open>Declarations of the repository that the file uses\<close>

text \<open>
  The configuration types of \<open>pkg/apis/eksctl.io/v1alpha5\<close>, with the fields the file
  reads.  An addon flag is a \<open>*bool\<close>: unset (\<open>nil\<close>), false or true.  The two
  configuration arguments are pointers that the callers never pass as \<open>nil\<close>; they are
  modelled as the records they point to.
\<close>

record ClusterIAM =
  WithOIDC :: "bool option"

record NodeGroupIAMAddonPolicies =
  ImageBuilder :: "bool option"
  AutoScaler :: "bool option"
  ExternalDNS :: "bool option"
  CertManager :: "bool option"
  AppMesh :: "bool option"
  AppMeshPreview :: "bool option"
  EBS :: "bool option"
  FSX :: "bool option"
  EFS :: "bool option"
  ALBIngress :: "bool option"
  XRay :: "bool option"
  CloudWatch :: "bool option"

record NodeGroupIAM =
  AttachPolicyARNs :: "string list"
  InstanceRoleName :: string
  InstanceRolePermissionsBoundary :: string
  WithAddonPolicies :: NodeGroupIAMAddonPolicies

text \<open>
  Modelled from the spec: \<open>api.IsEnabled\<close> is declared outside this file; an addon flag
  is tri-state (enabled, disabled, unset) and unset counts as disabled.
\<close>

definition IsEnabled :: "bool option \<Rightarrow> bool" where
  "IsEnabled v = (case v of None \<Rightarrow> False | Some b \<Rightarrow> b)"

text \<open>
  The policy-name constants and the default bundle are declared in another file of the
  package.  Their values are not visible here, so they are parameters of the model.
\<close>

record iam_decls =
  iamDefaultNodePolicies :: "string list"
  iamPolicyAmazonEKSCNIPolicy :: string
  iamPolicyAmazonEC2ContainerRegistryPowerUser :: string
  iamPolicyAmazonEC2ContainerRegistryReadOnly :: string
  iamPolicyCloudWatchAgentServerPolicy :: string
  iamPolicyAmazonSSMManagedInstanceCore :: string
  cfnIAMInstanceRoleName :: string

text \<open>
  A \<open>gfnt.Value\<close> of goformation is either a literal string or an intrinsic function;
  the file builds literal strings (\<open>NewString\<close>), \<open>Fn::Sub\<close> strings and, through the
  template, references to resources.
\<close>

datatype Value = NewString string | MakeFnSubString string | MakeRef string

text \<open>
  Modelled from the spec: \<open>makeStringSlice\<close>, \<open>makePolicyARNs\<close> and
  \<open>addARNPartitionPrefix\<close> are helpers of the package declared outside this file.
  The first wraps each string as a literal value.  The second resolves each short policy
  name to the full ARN of the AWS-managed policy of that name, the third qualifies a
  resource pattern with the partition; both leave the partition to be substituted by
  the template engine.
\<close>

definition makeStringSlice :: "string list \<Rightarrow> Value list" where
  "makeStringSlice s = map NewString s"

definition makePolicyARNs :: "string list \<Rightarrow> Value list" where
  "makePolicyARNs policyNames =
     map (\<lambda>policy. MakeFnSubString (''arn:${AWS::Partition}:iam::aws:policy/'' @ policy))
       policyNames"

definition addARNPartitionPrefix :: "string \<Rightarrow> Value" where
  "addARNPartitionPrefix s = MakeFnSubString (''arn:${AWS::Partition}:'' @ s)"

text \<open>
  The role resource of goformation, with the fields the file sets.  The trust policy
  document is built by helpers of other packages; it is kept as the term that names them.
\<close>

datatype ServiceRef = MakeServiceRef string

datatype PolicyDocument = MakeAssumeRolePolicyDocumentForServices "ServiceRef list"

record Role =
  Path :: Value
  AssumeRolePolicyDocument :: PolicyDocument
  ManagedPolicyArns :: "Value list"
  RoleName :: "Value option"
  PermissionsBoundary :: "Value option"

text \<open>
  The \<open>resources\<close> argument of \<open>attachAllowPolicy\<close> is an \<open>interface{}\<close> that holds
  either a Go string or a \<open>*gfnt.Value\<close>.
\<close>

datatype Resources = ResourceString string | ResourceValue Value

text \<open>
  The interface \<open>cfnTemplate\<close> is the template-builder collaborator.  It is modelled by
  the sequence of calls it has received, in order; \<open>newResource\<close> returns a reference
  to the resource it registered.
\<close>

datatype call =
  NewResourceCall string Role
| AttachAllowPolicyCall string Value Resources "string list"

type_synonym cfnTemplate = "call list"

definition attachAllowPolicy ::
    "cfnTemplate \<Rightarrow> string \<Rightarrow> Value \<Rightarrow> Resources \<Rightarrow> string list \<Rightarrow> cfnTemplate" where
  "attachAllowPolicy t name refRole resources actions =
     t @ [AttachAllowPolicyCall name refRole resources actions]"

definition newResource :: "cfnTemplate \<Rightarrow> string \<Rightarrow> Role \<Rightarrow> cfnTemplate \<times> Value" where
  "newResource t name resource = (t @ [NewResourceCall name resource], MakeRef name)"

section \<open>\<open>makeManagedPolicies\<close>\<close>

text \<open>
  The function has three parts.  The first (source lines 277 to 305) fills the set of
  short policy names from the flags.
\<close>

definition initialPolicyNames ::
    "iam_decls \<Rightarrow> ClusterIAM \<Rightarrow> NodeGroupIAM \<Rightarrow> bool \<Rightarrow> bool \<Rightarrow> string set" where
  "initialPolicyNames K iamCluster iamConfig managed enableSSM =
     (let managedPolicyNames = sets_NewString;
          managedPolicyNames =
            (if length (AttachPolicyARNs iamConfig) = 0 then
               (let names = sets_Insert managedPolicyNames (iamDefaultNodePolicies K);
                    names =
                      (if \<not> IsEnabled (WithOIDC iamCluster)
                       then sets_Insert names [iamPolicyAmazonEKSCNIPolicy K] else names);
                    names =
                      (if managed
                       then sets_Insert names [iamPolicyAmazonEC2ContainerRegistryReadOnly K]
                       else names)
                in names)
             else managedPolicyNames);
          managedPolicyNames =
            (if enableSSM
             then sets_Insert managedPolicyNames [iamPolicyAmazonSSMManagedInstanceCore K]
             else managedPolicyNames);
          managedPolicyNames =
            (if IsEnabled (ImageBuilder (WithAddonPolicies iamConfig))
             then sets_Insert managedPolicyNames
                    [iamPolicyAmazonEC2ContainerRegistryPowerUser K]
             else if \<not> managed
             then sets_Insert managedPolicyNames
                    [iamPolicyAmazonEC2ContainerRegistryReadOnly K]
             else managedPolicyNames);
          managedPolicyNames =
            (if IsEnabled (CloudWatch (WithAddonPolicies iamConfig))
             then sets_Insert managedPolicyNames [iamPolicyCloudWatchAgentServerPolicy K]
             else managedPolicyNames)
      in managedPolicyNames)"

text \<open>
  The second part is the loop over the attach-list (lines 307 to 318): each entry is
  parsed, its resource name is removed from the set, and the first entry that does not
  parse or has no resource name ends the function with an error.
\<close>

fun deleteAttached :: "string set \<Rightarrow> string list \<Rightarrow> error + string set" where
  "deleteAttached managedPolicyNames [] = Inr managedPolicyNames"
| "deleteAttached managedPolicyNames (policyARN # rest) =
     (case arn_Parse policyARN of
        Inl err \<Rightarrow> Inl err
      | Inr parsedARN \<Rightarrow>
          (let start = IndexRune (Resource parsedARN) (CHR ''/'')
           in if start = - 1 \<or> start + 1 = int (length (Resource parsedARN))
              then Inl (Error (''failed to find ARN resource name: '' @ Resource parsedARN))
              else (let resourceName = drop (nat (start + 1)) (Resource parsedARN)
                    in deleteAttached (sets_Delete managedPolicyNames resourceName) rest)))"

text \<open>
  The third part (lines 320 to 323) returns the attach-list followed by the remaining
  names as policy ARNs.  \<open>gfnt.NewSlice\<close> wraps the values as one list value; the model
  returns the list.
\<close>

definition makeManagedPolicies ::
    "iam_decls \<Rightarrow> ClusterIAM \<Rightarrow> NodeGroupIAM \<Rightarrow> bool \<Rightarrow> bool \<Rightarrow> error + Value list" where
  "makeManagedPolicies K iamCluster iamConfig managed enableSSM =
     (case deleteAttached (initialPolicyNames K iamCluster iamConfig managed enableSSM)
             (AttachPolicyARNs iamConfig) of
        Inl err \<Rightarrow> Inl err
      | Inr managedPolicyNames \<Rightarrow>
          Inr (makeStringSlice (AttachPolicyARNs iamConfig) @
               makePolicyARNs (sets_List managedPolicyNames)))"

section \<open>\<open>createRole\<close>\<close>

text \<open>
  The function returns the error, if any; its effect is the calls it makes on the
  template.  The model returns the template after the calls together with the error.
\<close>

definition createRole ::
    "iam_decls \<Rightarrow> cfnTemplate \<Rightarrow> ClusterIAM \<Rightarrow> NodeGroupIAM \<Rightarrow> bool \<Rightarrow> bool \<Rightarrow>
     cfnTemplate \<times> error option" where
  "createRole K cfnTemplate clusterIAMConfig iamConfig managed enableSSM =
     (case makeManagedPolicies K clusterIAMConfig iamConfig managed enableSSM of
        Inl err \<Rightarrow> (cfnTemplate, Some err)
      | Inr managedPolicyARNs \<Rightarrow>
     (let role =
            \<lparr>Path = NewString ''/'',
             AssumeRolePolicyDocument =
               MakeAssumeRolePolicyDocumentForServices [MakeServiceRef ''EC2''],
             ManagedPolicyArns = managedPolicyARNs,
             RoleName = None, PermissionsBoundary = None\<rparr>;
          role =
            (if InstanceRoleName iamConfig \<noteq> []
             then role\<lparr>RoleName := Some (NewString (InstanceRoleName iamConfig))\<rparr>
             else role);
          role =
            (if InstanceRolePermissionsBoundary iamConfig \<noteq> []
             then role\<lparr>PermissionsBoundary :=
                         Some (NewString (InstanceRolePermissionsBoundary iamConfig))\<rparr>
             else role);
          (t, refIR) = newResource cfnTemplate (cfnIAMInstanceRoleName K) role;
          t = (if IsEnabled (AutoScaler (WithAddonPolicies iamConfig)) then
             attachAllowPolicy t ''PolicyAutoScaling'' refIR (ResourceString ''*'')
               [''autoscaling:DescribeAutoScalingGroups'',
                ''autoscaling:DescribeAutoScalingInstances'',
                ''autoscaling:DescribeLaunchConfigurations'', ''autoscaling:DescribeTags'',
                ''autoscaling:SetDesiredCapacity'',
                ''autoscaling:TerminateInstanceInAutoScalingGroup'',
                ''ec2:DescribeLaunchTemplateVersions'']
           else t);
          t = (if IsEnabled (CertManager (WithAddonPolicies iamConfig)) then
             (let t = attachAllowPolicy t ''PolicyCertManagerChangeSet'' refIR
                        (ResourceValue (addARNPartitionPrefix ''route53:::hostedzone/*''))
                        [''route53:ChangeResourceRecordSets''];
                  hostedZonePolicy =
                    [''route53:ListResourceRecordSets'', ''route53:ListHostedZonesByName''];
                  hostedZonePolicy =
                    (if IsEnabled (ExternalDNS (WithAddonPolicies iamConfig))
                     then hostedZonePolicy @
                            [''route53:ListHostedZones'', ''route53:ListTagsForResource'']
                     else hostedZonePolicy);
                  t = attachAllowPolicy t ''PolicyCertManagerHostedZones'' refIR
                        (ResourceString ''*'') hostedZonePolicy;
                  t = attachAllowPolicy t ''PolicyCertManagerGetChange'' refIR
                        (ResourceValue (addARNPartitionPrefix ''route53:::change/*''))
                        [''route53:GetChange'']
              in t)
           else if IsEnabled (ExternalDNS (WithAddonPolicies iamConfig)) then
             (let t = attachAllowPolicy t ''PolicyExternalDNSChangeSet'' refIR
                        (ResourceValue (addARNPartitionPrefix ''route53:::hostedzone/*''))
                        [''route53:ChangeResourceRecordSets''];
                  t = attachAllowPolicy t ''PolicyExternalDNSHostedZones'' refIR
                        (ResourceString ''*'')
                        [''route53:ListHostedZones'', ''route53:ListResourceRecordSets'',
                         ''route53:ListTagsForResource'']
              in t)
           else t);
          appMeshActions =
            [''servicediscovery:CreateService'', ''servicediscovery:DeleteService'',
             ''servicediscovery:GetService'', ''servicediscovery:GetInstance'',
             ''servicediscovery:RegisterInstance'', ''servicediscovery:DeregisterInstance'',
             ''servicediscovery:ListInstances'', ''servicediscovery:ListNamespaces'',
             ''servicediscovery:ListServices'', ''servicediscovery:GetInstancesHealthStatus'',
             ''servicediscovery:UpdateInstanceCustomHealthStatus'',
             ''servicediscovery:GetOperation'', ''route53:GetHealthCheck'',
             ''route53:CreateHealthCheck'', ''route53:UpdateHealthCheck'',
             ''route53:ChangeResourceRecordSets'', ''route53:DeleteHealthCheck''];
          t = (if IsEnabled (AppMesh (WithAddonPolicies iamConfig)) then
             attachAllowPolicy t ''PolicyAppMesh'' refIR (ResourceString ''*'')
               (appMeshActions @ [''appmesh:*''])
           else t);
          t = (if IsEnabled (AppMeshPreview (WithAddonPolicies iamConfig)) then
             attachAllowPolicy t ''PolicyAppMeshPreview'' refIR (ResourceString ''*'')
               (appMeshActions @ [''appmesh-preview:*''])
           else t);
          t = (if IsEnabled (EBS (WithAddonPolicies iamConfig)) then
             attachAllowPolicy t ''PolicyEBS'' refIR (ResourceString ''*'')
               [''ec2:AttachVolume'', ''ec2:CreateSnapshot'', ''ec2:CreateTags'',
                ''ec2:CreateVolume'', ''ec2:DeleteSnapshot'', ''ec2:DeleteTags'',
                ''ec2:DeleteVolume'', ''ec2:DescribeAvailabilityZones'',
                ''ec2:DescribeInstances'', ''ec2:DescribeSnapshots'', ''ec2:DescribeTags'',
                ''ec2:DescribeVolumes'', ''ec2:DescribeVolumesModifications'',
                ''ec2:DetachVolume'', ''ec2:ModifyVolume'']
           else t);
          t = (if IsEnabled (FSX (WithAddonPolicies iamConfig)) then
             (let t = attachAllowPolicy t ''PolicyFSX'' refIR (ResourceString ''*'')
                        [''fsx:*''];
                  t = attachAllowPolicy t ''PolicyServiceLinkRole'' refIR
                        (ResourceValue
                           (addARNPartitionPrefix ''iam::*:role/aws-service-role/*''))
                        [''iam:CreateServiceLinkedRole'', ''iam:AttachRolePolicy'',
                         ''iam:PutRolePolicy'']
              in t)
           else t);
          t = (if IsEnabled (EFS (WithAddonPolicies iamConfig)) then
             (let t = attachAllowPolicy t ''PolicyEFS'' refIR (ResourceString ''*'')
                        [''elasticfilesystem:*''];
                  t = attachAllowPolicy t ''PolicyEFSEC2'' refIR (ResourceString ''*'')
                        [''ec2:DescribeSubnets'', ''ec2:CreateNetworkInterface'',
                         ''ec2:DescribeNetworkInterfaces'', ''ec2:DeleteNetworkInterface'',
                         ''ec2:ModifyNetworkInterfaceAttribute'',
                         ''ec2:DescribeNetworkInterfaceAttribute'']
              in t)
           else t);
          t = (if IsEnabled (ALBIngress (WithAddonPolicies iamConfig)) then
             attachAllowPolicy t ''PolicyALBIngress'' refIR (ResourceString ''*'')
               [''acm:DescribeCertificate'', ''acm:ListCertificates'', ''acm:GetCertificate'',
                ''ec2:AuthorizeSecurityGroupIngress'', ''ec2:CreateSecurityGroup'',
                ''ec2:CreateTags'', ''ec2:DeleteTags'', ''ec2:DeleteSecurityGroup'',
                ''ec2:DescribeAccountAttributes'', ''ec2:DescribeAddresses'',
                ''ec2:DescribeInstances'', ''ec2:DescribeInstanceStatus'',
                ''ec2:DescribeInternetGateways'', ''ec2:DescribeNetworkInterfaces'',
                ''ec2:DescribeSecurityGroups'', ''ec2:DescribeSubnets'', ''ec2:DescribeTags'',
                ''ec2:DescribeVpcs'', ''ec2:ModifyInstanceAttribute'',
                ''ec2:ModifyNetworkInterfaceAttribute'', ''ec2:RevokeSecurityGroupIngress'',
                ''elasticloadbalancing:AddListenerCertificates'',
                ''elasticloadbalancing:AddTags'', ''elasticloadbalancing:CreateListener'',
                ''elasticloadbalancing:CreateLoadBalancer'',
                ''elasticloadbalancing:CreateRule'', ''elasticloadbalancing:CreateTargetGroup'',
                ''elasticloadbalancing:DeleteListener'',
                ''elasticloadbalancing:DeleteLoadBalancer'',
                ''elasticloadbalancing:DeleteRule'', ''elasticloadbalancing:DeleteTargetGroup'',
                ''elasticloadbalancing:DeregisterTargets'',
                ''elasticloadbalancing:DescribeListenerCertificates'',
                ''elasticloadbalancing:DescribeListeners'',
                ''elasticloadbalancing:DescribeLoadBalancers'',
                ''elasticloadbalancing:DescribeLoadBalancerAttributes'',
                ''elasticloadbalancing:DescribeRules'',
                ''elasticloadbalancing:DescribeSSLPolicies'',
                ''elasticloadbalancing:DescribeTags'',
                ''elasticloadbalancing:DescribeTargetGroups'',
                ''elasticloadbalancing:DescribeTargetGroupAttributes'',
                ''elasticloadbalancing:DescribeTargetHealth'',
                ''elasticloadbalancing:ModifyListener'',
                ''elasticloadbalancing:ModifyLoadBalancerAttributes'',
                ''elasticloadbalancing:ModifyRule'', ''elasticloadbalancing:ModifyTargetGroup'',
                ''elasticloadbalancing:ModifyTargetGroupAttributes'',
                ''elasticloadbalancing:RegisterTargets'',
                ''elasticloadbalancing:RemoveListenerCertificates'',
                ''elasticloadbalancing:RemoveTags'', ''elasticloadbalancing:SetIpAddressType'',
                ''elasticloadbalancing:SetSecurityGroups'', ''elasticloadbalancing:SetSubnets'',
                ''elasticloadbalancing:SetWebACL'', ''iam:CreateServiceLinkedRole'',
                ''iam:GetServerCertificate'', ''iam:ListServerCertificates'',
                ''waf-regional:GetWebACLForResource'', ''waf-regional:GetWebACL'',
                ''waf-regional:AssociateWebACL'', ''waf-regional:DisassociateWebACL'',
                ''tag:GetResources'', ''tag:TagResources'', ''waf:GetWebACL'',
                ''wafv2:GetWebACL'', ''wafv2:GetWebACLForResource'', ''wafv2:AssociateWebACL'',
                ''wafv2:DisassociateWebACL'', ''shield:DescribeProtection'',
                ''shield:GetSubscriptionState'', ''shield:DeleteProtection'',
                ''shield:CreateProtection'', ''shield:DescribeSubscription'',
                ''shield:ListProtections'']
           else t);
          t = (if IsEnabled (XRay (WithAddonPolicies iamConfig)) then
             attachAllowPolicy t ''PolicyXRay'' refIR (ResourceString ''*'')
               [''xray:PutTraceSegments'', ''xray:PutTelemetryRecords'',
                ''xray:GetSamplingRules'', ''xray:GetSamplingTargets'',
                ''xray:GetSamplingStatisticSummaries'']
           else t)
      in (t, None)))"

section \<open>\<open>NormalizeARN\<close>\<close>

text \<open>
  \<open>fmt.Sprintf("%s/%s", a, b)\<close> is the concatenation of \<open>a\<close>, a slash and \<open>b\<close>.
  The two index reads are in range: they are reached only when \<open>parts\<close> has more than
  one element.
\<close>

definition NormalizeARN :: "string \<Rightarrow> string" where
  "NormalizeARN arn =
     (let parts = Split arn (CHR ''/'')
      in if length parts \<le> 1 then arn
         else parts ! 0 @ ''/'' @ parts ! (length parts - 1))"

section \<open>Notions used in the statements\<close>

text \<open>
  The resource name of an attach-list entry, in the words of the specification: the
  entry parses as an ARN, its resource component contains a slash, and the name is the
  text after the first slash, which must not be empty.  Entries without a resource name
  are the malformed ones.
\<close>

definition resourceName :: "string \<Rightarrow> string option" where
  "resourceName policyARN =
     (case arn_Parse policyARN of
        Inl err \<Rightarrow> None
      | Inr parsedARN \<Rightarrow>
          (let afterSlash = tl (dropWhile (\<lambda>c. c \<noteq> CHR ''/'') (Resource parsedARN))
           in if CHR ''/'' \<in> set (Resource parsedARN) \<and> afterSlash \<noteq> []
              then Some afterSlash else None))"

text \<open>The short names that the entries of an attach-list override.\<close>

definition overriddenNames :: "string list \<Rightarrow> string set" where
  "overriddenNames attached = set (List.map_filter resourceName attached)"

text \<open>
  The default-bundle form of a policy: the value to which \<open>makePolicyARNs\<close> resolves
  its short name.  The explicit form of an attach-list entry \<open>a\<close> is \<open>NewString a\<close>.
\<close>

definition defaultForm :: "string \<Rightarrow> Value" where
  "defaultForm policy = hd (makePolicyARNs [policy])"

text \<open>
  The calls that \<open>createRole\<close> added to a template that held \<open>before\<close>, and the
  statements among them.
\<close>

definition newCalls :: "cfnTemplate \<Rightarrow> cfnTemplate \<Rightarrow> call list" where
  "newCalls before after = drop (length before) after"

fun statementName :: "call \<Rightarrow> string option" where
  "statementName (AttachAllowPolicyCall name refRole resources actions) = Some name"
| "statementName (NewResourceCall name resource) = None"

definition statementNames :: "call list \<Rightarrow> string list" where
  "statementNames calls = List.map_filter statementName calls"

fun hasResources :: "Resources \<Rightarrow> call \<Rightarrow> bool" where
  "hasResources r (AttachAllowPolicyCall name refRole resources actions) \<longleftrightarrow> resources = r"
| "hasResources r (NewResourceCall name resource) \<longleftrightarrow> False"

fun actionsOf :: "string \<Rightarrow> call list \<Rightarrow> string list list" where
  "actionsOf n [] = []"
| "actionsOf n (AttachAllowPolicyCall name refRole resources actions # calls) =
     (if name = n then actions # actionsOf n calls else actionsOf n calls)"
| "actionsOf n (NewResourceCall name resource # calls) = actionsOf n calls"

text \<open>
  An instance of the declarations, for evaluating the model at concrete inputs: every
  constant is the policy name that its identifier spells, the default bundle is the
  worker-node policy, and the role resource is called \<open>NodeInstanceRole\<close>.
\<close>

definition iamDecls :: iam_decls where
  "iamDecls =
     \<lparr>iamDefaultNodePolicies = [''AmazonEKSWorkerNodePolicy''],
      iamPolicyAmazonEKSCNIPolicy = ''AmazonEKS_CNI_Policy'',
      iamPolicyAmazonEC2ContainerRegistryPowerUser = ''AmazonEC2ContainerRegistryPowerUser'',
      iamPolicyAmazonEC2ContainerRegistryReadOnly = ''AmazonEC2ContainerRegistryReadOnly'',
      iamPolicyCloudWatchAgentServerPolicy = ''CloudWatchAgentServerPolicy'',
      iamPolicyAmazonSSMManagedInstanceCore = ''AmazonSSMManagedInstanceCore'',
      cfnIAMInstanceRoleName = ''NodeInstanceRole''\<rparr>"

text \<open>A configuration with no addon enabled and nothing set.\<close>

definition noAddons :: NodeGroupIAMAddonPolicies where
  "noAddons =
     \<lparr>ImageBuilder = None, AutoScaler = None, ExternalDNS = None, CertManager = None,
      AppMesh = None, AppMeshPreview = None, EBS = None, FSX = None, EFS = None,
      ALBIngress = None, XRay = None, CloudWatch = None\<rparr>"

definition plainConfig :: NodeGroupIAM where
  "plainConfig =
     \<lparr>AttachPolicyARNs = [], InstanceRoleName = [], InstanceRolePermissionsBoundary = [],
      WithAddonPolicies = noAddons\<rparr>"

section \<open>Facts about the library functions\<close>

lemma IndexRune_range: "- 1 \<le> IndexRune s r \<and> IndexRune s r < int (length s)"
  by (induction s) (auto simp: Let_def)

lemma IndexRune_none: "IndexRune s r = - 1 \<longleftrightarrow> r \<notin> set s"
proof (induction s)
  case Nil
  show ?case by simp
next
  case (Cons c s)
  have "- 1 \<le> IndexRune s r" using IndexRune_range by blast
  with Cons show ?case by (auto simp: Let_def)
qed

lemma IndexRune_first:
  "r \<in> set s \<Longrightarrow> IndexRune s r = int (length (takeWhile (\<lambda>c. c \<noteq> r) s))"
proof (induction s)
  case Nil
  then show ?case by simp
next
  case (Cons c s)
  show ?case
  proof (cases "c = r")
    case True
    then show ?thesis by simp
  next
    case False
    with Cons.prems have in_s: "r \<in> set s" by simp
    then have "IndexRune s r \<noteq> - 1" by (simp add: IndexRune_none)
    with False Cons.IH [OF in_s] show ?thesis by (simp add: Let_def)
  qed
qed

lemma Split_Nil: "Split [] sep = [[]]"
  by (simp add: Split.simps)

lemma Split_Cons:
  "Split (c # s) sep =
     (if c = sep then [] # Split s sep
      else (c # hd (Split s sep)) # tl (Split s sep))"
proof (cases "c = sep")
  case True
  then show ?thesis using Split.simps [of "c # s" sep] by simp
next
  case False
  show ?thesis
  proof (cases "IndexRune s sep = - 1")
    case True
    then have "Split s sep = [s]" using Split.simps [of s sep] by simp
    moreover from True False have "Split (c # s) sep = [c # s]"
      using Split.simps [of "c # s" sep] by simp
    ultimately show ?thesis using False by simp
  next
    case nonneg: False
    moreover have "- 1 \<le> IndexRune s sep" using IndexRune_range by blast
    ultimately obtain n where n: "IndexRune s sep = int n"
      by (cases "IndexRune s sep") auto
    then have "Split s sep = take n s # Split (drop (n + 1) s) sep"
      by (subst Split.simps) (simp add: Let_def)
    moreover from n False have "IndexRune (c # s) sep = int (Suc n)"
      by simp
    then have "Split (c # s) sep = (c # take n s) # Split (drop (n + 1) s) sep"
      by (subst Split.simps) (simp add: Let_def del: of_nat_Suc)
    ultimately show ?thesis using False by simp
  qed
qed
lemma Split_nonempty: "Split s sep \<noteq> []"
  by (cases s) (simp_all add: Split_Nil Split_Cons)

lemma Split_length: "length (Split s sep) \<le> 1 \<longleftrightarrow> sep \<notin> set s"
proof (induction s)
  case Nil
  show ?case by (simp add: Split_Nil)
next
  case (Cons c s)
  obtain x xs where X: "Split s sep = x # xs"
    using Split_nonempty [of s sep] by (cases "Split s sep") auto
  with Cons show ?case by (auto simp: Split_Cons)
qed

lemma Split_hd: "hd (Split s sep) = takeWhile (\<lambda>c. c \<noteq> sep) s"
  by (induction s) (auto simp: Split_Nil Split_Cons)

lemma Split_last: "last (Split s sep) = rev (takeWhile (\<lambda>c. c \<noteq> sep) (rev s))"
proof (induction s)
  case Nil
  show ?case by (simp add: Split_Nil)
next
  case (Cons c s)
  let ?P = "\<lambda>c. c \<noteq> sep"
  let ?X = "Split s sep"
  obtain x xs where X: "?X = x # xs" using Split_nonempty [of s sep] by (cases ?X) auto
  show ?case
  proof (cases "sep \<in> set s")
    case True
    then have app: "takeWhile ?P (rev s @ [c]) = takeWhile ?P (rev s)"
      by (intro takeWhile_append1 [where x = sep]) auto
    from True have "xs \<noteq> []" using Split_length [of s sep] X by auto
    then have "last (Split (c # s) sep) = last ?X"
      by (simp add: Split_Cons X)
    also have "\<dots> = rev (takeWhile ?P (rev s))" by (rule Cons.IH)
    finally show ?thesis using app by simp
  next
    case False
    then have all: "takeWhile ?P s = s"
      by (auto simp: takeWhile_eq_all_conv)
    from False have app2: "takeWhile ?P (rev s @ [c]) = rev s @ takeWhile ?P [c]"
      by (intro takeWhile_append2) auto
    from False have xs: "xs = []" using Split_length [of s sep] X by auto
    have x: "x = s" using Split_hd [of s sep] X all by simp
    have "last (Split (c # s) sep) = (if c = sep then s else c # s)"
      by (simp add: Split_Cons X xs x)
    then show ?thesis using app2 by simp
  qed
qed


section \<open>The loop over the attach-list\<close>

lemma drop_after_first:
  assumes "r \<in> set s"
  shows "drop (nat (IndexRune s r + 1)) s = tl (dropWhile (\<lambda>c. c \<noteq> r) s)"
proof -
  let ?n = "length (takeWhile (\<lambda>c. c \<noteq> r) s)"
  have "IndexRune s r = int ?n" using assms by (rule IndexRune_first)
  then have "nat (IndexRune s r + 1) = Suc ?n" by simp
  moreover have "drop (Suc ?n) s = tl (drop ?n s)" by (simp add: drop_Suc tl_drop)
  ultimately show ?thesis by (simp add: dropWhile_eq_drop)
qed

lemma first_is_last:
  assumes "r \<in> set s"
  shows "IndexRune s r + 1 = int (length s) \<longleftrightarrow> tl (dropWhile (\<lambda>c. c \<noteq> r) s) = []"
proof -
  have lt: "IndexRune s r < int (length s)" "- 1 \<le> IndexRune s r"
    using IndexRune_range [of s r] by simp_all
  have "tl (dropWhile (\<lambda>c. c \<noteq> r) s) = [] \<longleftrightarrow> length s \<le> nat (IndexRune s r + 1)"
    using drop_after_first [OF assms] by (metis drop_eq_Nil)
  with lt show ?thesis by auto
qed

lemma resourceName_step:
  assumes "arn_Parse a = Inr p"
  shows "resourceName a =
     (if IndexRune (Resource p) (CHR ''/'') = - 1 \<or>
         IndexRune (Resource p) (CHR ''/'') + 1 = int (length (Resource p))
      then None
      else Some (drop (nat (IndexRune (Resource p) (CHR ''/'') + 1)) (Resource p)))"
proof (cases "CHR ''/'' \<in> set (Resource p)")
  case True
  then have "IndexRune (Resource p) (CHR ''/'') \<noteq> - 1" by (simp add: IndexRune_none)
  with True assms show ?thesis
    by (simp add: resourceName_def Let_def first_is_last drop_after_first)
next
  case False
  then have "IndexRune (Resource p) (CHR ''/'') = - 1" by (simp add: IndexRune_none)
  with False assms show ?thesis by (simp add: resourceName_def Let_def)
qed

lemma overriddenNames_iff:
  "n \<in> overriddenNames attached \<longleftrightarrow> (\<exists>a\<in>set attached. resourceName a = Some n)"
  by (induction attached)
    (auto simp: overriddenNames_def List.map_filter_simps split: option.splits)

lemma overriddenNames_Cons:
  "overriddenNames (a # attached) =
     (case resourceName a of None \<Rightarrow> {} | Some n \<Rightarrow> {n}) \<union> overriddenNames attached"
  by (auto simp: overriddenNames_def List.map_filter_def split: option.splits)

lemma deleteAttached_Inr:
  "deleteAttached S attached = Inr S' \<longleftrightarrow>
     (\<forall>a\<in>set attached. resourceName a \<noteq> None) \<and> S' = S - overriddenNames attached"
proof (induction attached arbitrary: S)
  case Nil
  show ?case by (auto simp: overriddenNames_def List.map_filter_def)
next
  case (Cons a attached)
  show ?case
  proof (cases "arn_Parse a")
    case (Inl e)
    then show ?thesis by (simp add: resourceName_def)
  next
    case (Inr p)
    show ?thesis
    proof (cases "resourceName a")
      case None
      with Inr resourceName_step [OF Inr] show ?thesis
        by (auto simp: Let_def split: if_splits)
    next
      case (Some n)
      with Inr resourceName_step [OF Inr] Cons [of "sets_Delete S n"] show ?thesis
        by (auto simp: Let_def overriddenNames_Cons sets_Delete_def split: if_splits)
    qed
  qed
qed

lemma deleteAttached_Inl:
  "(\<exists>e. deleteAttached S attached = Inl e) \<longleftrightarrow> (\<exists>a\<in>set attached. resourceName a = None)"
proof -
  have "(\<exists>e. deleteAttached S attached = Inl e) \<longleftrightarrow> (\<forall>S'. deleteAttached S attached \<noteq> Inr S')"
    by (cases "deleteAttached S attached") auto
  then show ?thesis by (auto simp: deleteAttached_Inr)
qed

section \<open>The managed-policy resolver\<close>

lemma initialPolicyNames_iff:
  "n \<in> initialPolicyNames K iamCluster iamConfig managed enableSSM \<longleftrightarrow>
     AttachPolicyARNs iamConfig = [] \<and>
       (n \<in> set (iamDefaultNodePolicies K) \<or>
        \<not> IsEnabled (WithOIDC iamCluster) \<and> n = iamPolicyAmazonEKSCNIPolicy K \<or>
        managed \<and> n = iamPolicyAmazonEC2ContainerRegistryReadOnly K) \<or>
     enableSSM \<and> n = iamPolicyAmazonSSMManagedInstanceCore K \<or>
     IsEnabled (ImageBuilder (WithAddonPolicies iamConfig)) \<and>
       n = iamPolicyAmazonEC2ContainerRegistryPowerUser K \<or>
     \<not> IsEnabled (ImageBuilder (WithAddonPolicies iamConfig)) \<and> \<not> managed \<and>
       n = iamPolicyAmazonEC2ContainerRegistryReadOnly K \<or>
     IsEnabled (CloudWatch (WithAddonPolicies iamConfig)) \<and>
       n = iamPolicyCloudWatchAgentServerPolicy K"
  by (simp add: initialPolicyNames_def Let_def sets_NewString_def sets_Insert_def) blast

lemma finite_initialPolicyNames:
  "finite (initialPolicyNames K iamCluster iamConfig managed enableSSM)"
  by (simp add: initialPolicyNames_def Let_def sets_NewString_def sets_Insert_def)

lemma sets_List_props:
  assumes "finite S"
  shows "set (sets_List S) = S" "sorted (sets_List S)" "distinct (sets_List S)"
  using assms by (simp_all add: sets_List_def)

lemma defaultForm_inj: "defaultForm n = defaultForm n' \<longleftrightarrow> n = n'"
  by (simp add: defaultForm_def makePolicyARNs_def)

lemma makePolicyARNs_defaultForm: "makePolicyARNs ns = map defaultForm ns"
  by (simp add: defaultForm_def makePolicyARNs_def)

lemma defaultForm_in_makePolicyARNs: "defaultForm n \<in> set (makePolicyARNs ns) \<longleftrightarrow> n \<in> set ns"
  by (auto simp: makePolicyARNs_defaultForm defaultForm_inj)

lemma defaultForm_not_literal: "defaultForm n \<noteq> NewString a"
  by (simp add: defaultForm_def makePolicyARNs_def)

lemma distinct_makePolicyARNs: "distinct (makePolicyARNs ns) \<longleftrightarrow> distinct ns"
  by (simp add: makePolicyARNs_defaultForm distinct_map inj_on_def defaultForm_inj)

lemma makeManagedPolicies_Inr:
  "makeManagedPolicies K iamCluster iamConfig managed enableSSM = Inr res \<longleftrightarrow>
     (\<forall>a\<in>set (AttachPolicyARNs iamConfig). resourceName a \<noteq> None) \<and>
     res = map NewString (AttachPolicyARNs iamConfig) @
           makePolicyARNs
             (sets_List (initialPolicyNames K iamCluster iamConfig managed enableSSM -
                         overriddenNames (AttachPolicyARNs iamConfig)))"
proof (cases "deleteAttached (initialPolicyNames K iamCluster iamConfig managed enableSSM)
                (AttachPolicyARNs iamConfig)")
  case (Inl e)
  then have "\<exists>a\<in>set (AttachPolicyARNs iamConfig). resourceName a = None"
    using deleteAttached_Inl by blast
  with Inl show ?thesis by (auto simp: makeManagedPolicies_def)
next
  case (Inr S')
  then have ok: "\<forall>a\<in>set (AttachPolicyARNs iamConfig). resourceName a \<noteq> None"
    and S': "S' = initialPolicyNames K iamCluster iamConfig managed enableSSM -
                  overriddenNames (AttachPolicyARNs iamConfig)"
    by (simp_all add: deleteAttached_Inr)
  have "makeManagedPolicies K iamCluster iamConfig managed enableSSM =
          Inr (map NewString (AttachPolicyARNs iamConfig) @ makePolicyARNs (sets_List S'))"
    by (simp add: makeManagedPolicies_def makeStringSlice_def Inr)
  with ok S' show ?thesis by auto
qed

lemma makeManagedPolicies_Inl:
  "(\<exists>e. makeManagedPolicies K iamCluster iamConfig managed enableSSM = Inl e) \<longleftrightarrow>
     (\<exists>a\<in>set (AttachPolicyARNs iamConfig). resourceName a = None)"
proof -
  let ?r = "makeManagedPolicies K iamCluster iamConfig managed enableSSM"
  have "(\<exists>e. ?r = Inl e) \<longleftrightarrow> (\<forall>res. ?r \<noteq> Inr res)" by (cases ?r) auto
  then show ?thesis by (auto simp: makeManagedPolicies_Inr)
qed

lemma resolved_members:
  assumes "makeManagedPolicies K iamCluster iamConfig managed enableSSM = Inr res"
  shows "NewString a \<in> set res \<longleftrightarrow> a \<in> set (AttachPolicyARNs iamConfig)"
    and "defaultForm n \<in> set res \<longleftrightarrow>
           n \<in> initialPolicyNames K iamCluster iamConfig managed enableSSM \<and>
           n \<notin> overriddenNames (AttachPolicyARNs iamConfig)"
proof -
  let ?S = "initialPolicyNames K iamCluster iamConfig managed enableSSM -
            overriddenNames (AttachPolicyARNs iamConfig)"
  have fin: "finite ?S" by (simp add: finite_initialPolicyNames)
  have res: "res = map NewString (AttachPolicyARNs iamConfig) @ makePolicyARNs (sets_List ?S)"
    using assms by (simp add: makeManagedPolicies_Inr)
  show "NewString a \<in> set res \<longleftrightarrow> a \<in> set (AttachPolicyARNs iamConfig)"
    unfolding res by (auto simp: makePolicyARNs_def)
  have "defaultForm n \<notin> set (map NewString (AttachPolicyARNs iamConfig))"
    by (auto simp: defaultForm_not_literal)
  then show "defaultForm n \<in> set res \<longleftrightarrow>
           n \<in> initialPolicyNames K iamCluster iamConfig managed enableSSM \<and>
           n \<notin> overriddenNames (AttachPolicyARNs iamConfig)"
    unfolding res using sets_List_props(1) [OF fin]
    by (simp add: defaultForm_in_makePolicyARNs)
qed

section \<open>Properties of the managed-policy resolver\<close>

text \<open>
  Claim C1, as amended.  For every configuration with the managed node-group flag set
  and an empty attach-list, resolution succeeds and the resolved list contains the
  read-only container-registry policy, whatever the other flags are.
\<close>

theorem managed_read_only_without_attach_list:
  assumes "managed" and "AttachPolicyARNs iamConfig = []"
  shows "\<exists>res. makeManagedPolicies K iamCluster iamConfig managed enableSSM = Inr res \<and>
           defaultForm (iamPolicyAmazonEC2ContainerRegistryReadOnly K) \<in> set res"
proof -
  from assms(2) obtain res
    where res: "makeManagedPolicies K iamCluster iamConfig managed enableSSM = Inr res"
    by (simp add: makeManagedPolicies_Inr)
  have "iamPolicyAmazonEC2ContainerRegistryReadOnly K
          \<in> initialPolicyNames K iamCluster iamConfig managed enableSSM"
    using assms by (simp add: initialPolicyNames_iff)
  moreover have "overriddenNames (AttachPolicyARNs iamConfig) = {}"
    using assms(2) by (simp add: overriddenNames_def List.map_filter_simps)
  ultimately show ?thesis using res resolved_members(2) [OF res] by simp
qed

text \<open>The theorem at a managed node-group with nothing else configured.\<close>

theorem managed_read_only_without_attach_list_witness:
  "AttachPolicyARNs plainConfig = [] \<and>
   (\<exists>res. makeManagedPolicies iamDecls \<lparr>WithOIDC = None\<rparr> plainConfig True False = Inr res \<and>
      defaultForm (iamPolicyAmazonEC2ContainerRegistryReadOnly iamDecls) \<in> set res)"
  using managed_read_only_without_attach_list
          [of True plainConfig iamDecls "\<lparr>WithOIDC = None\<rparr>" False]
  by (simp add: plainConfig_def)

text \<open>
  Claim C1 as stated fails: with the managed flag set and an attach-list that names
  another policy, the resolved list is the attach-list alone.
\<close>

theorem managed_read_only_with_attach_list_counterexample:
  "makeManagedPolicies iamDecls \<lparr>WithOIDC = None\<rparr>
     (plainConfig\<lparr>AttachPolicyARNs := [''arn:aws:iam::aws:policy/AmazonS3ReadOnlyAccess'']\<rparr>)
     True False =
   Inr [NewString ''arn:aws:iam::aws:policy/AmazonS3ReadOnlyAccess''] \<and>
   defaultForm (iamPolicyAmazonEC2ContainerRegistryReadOnly iamDecls) \<notin>
     set [NewString ''arn:aws:iam::aws:policy/AmazonS3ReadOnlyAccess''] \<and>
   resourceName ''arn:aws:iam::aws:policy/AmazonS3ReadOnlyAccess'' =
     Some ''AmazonS3ReadOnlyAccess''"
  by code_simp

lemma malformed_no_resourceName:
  assumes "(\<exists>e. arn_Parse a = Inl e) \<or>
     (\<exists>p. arn_Parse a = Inr p \<and>
        (CHR ''/'' \<notin> set (Resource p) \<or>
         (\<exists>pre. Resource p = pre @ ''/'' \<and> CHR ''/'' \<notin> set pre)))"
  shows "resourceName a = None"
proof -
  have "tl (dropWhile (\<lambda>c. c \<noteq> CHR ''/'') (pre @ ''/'')) = []"
    if "CHR ''/'' \<notin> set pre" for pre :: string
  proof -
    from that have "dropWhile (\<lambda>c. c \<noteq> CHR ''/'') (pre @ ''/'') =
        dropWhile (\<lambda>c. c \<noteq> CHR ''/'') ''/''"
      by (intro dropWhile_append2) auto
    then show ?thesis by simp
  qed
  with assms show ?thesis by (auto simp: resourceName_def Let_def)
qed

text \<open>
  Claim C2.  When the attach-list has an entry that does not parse as an ARN, or whose
  resource component has no slash, or whose resource component has its first slash as
  the final character, \<open>makeManagedPolicies\<close> returns an error and no list, and
  \<open>createRole\<close> returns that error with the template as it was: no \<open>newResource\<close> and
  no \<open>attachAllowPolicy\<close> call has been made.
\<close>

theorem malformed_entry_aborts:
  assumes "a \<in> set (AttachPolicyARNs iamConfig)"
    and "(\<exists>e. arn_Parse a = Inl e) \<or>
         (\<exists>p. arn_Parse a = Inr p \<and>
            (CHR ''/'' \<notin> set (Resource p) \<or>
             (\<exists>pre. Resource p = pre @ ''/'' \<and> CHR ''/'' \<notin> set pre)))"
  shows "\<exists>e. makeManagedPolicies K iamCluster iamConfig managed enableSSM = Inl e \<and>
           createRole K t iamCluster iamConfig managed enableSSM = (t, Some e)"
proof -
  have "resourceName a = None" using assms(2) by (rule malformed_no_resourceName)
  with assms(1) obtain e
    where e: "makeManagedPolicies K iamCluster iamConfig managed enableSSM = Inl e"
    using makeManagedPolicies_Inl by blast
  then have "createRole K t iamCluster iamConfig managed enableSSM = (t, Some e)"
    by (simp add: createRole_def)
  with e show ?thesis by blast
qed

text \<open>
  The theorem at the attach-list \<open>arn:aws:iam::123456789012:role\<close>, whose resource
  component \<open>role\<close> has no slash, and the empty template.
\<close>

theorem malformed_entry_aborts_witness:
  "arn_Parse ''arn:aws:iam::123456789012:role'' =
     Inr \<lparr>Partition = ''aws'', Service = ''iam'', Region = [],
          AccountID = ''123456789012'', Resource = ''role''\<rparr> \<and>
   (\<exists>e. makeManagedPolicies iamDecls \<lparr>WithOIDC = None\<rparr>
           (plainConfig\<lparr>AttachPolicyARNs := [''arn:aws:iam::123456789012:role'']\<rparr>)
           False False = Inl e \<and>
        createRole iamDecls [] \<lparr>WithOIDC = None\<rparr>
           (plainConfig\<lparr>AttachPolicyARNs := [''arn:aws:iam::123456789012:role'']\<rparr>)
           False False = ([], Some e))"
proof -
  have p: "arn_Parse ''arn:aws:iam::123456789012:role'' =
     Inr \<lparr>Partition = ''aws'', Service = ''iam'', Region = [],
          AccountID = ''123456789012'', Resource = ''role''\<rparr>"
    by code_simp
  show ?thesis
    using p malformed_entry_aborts
      [of "''arn:aws:iam::123456789012:role''"
          "plainConfig\<lparr>AttachPolicyARNs := [''arn:aws:iam::123456789012:role'']\<rparr>"
          iamDecls "\<lparr>WithOIDC = None\<rparr>" False False "[]"]
    by simp
qed

text \<open>
  Claim C3.  When resolution succeeds and an attach-list entry is a well-formed ARN with
  resource name \<open>n\<close> (in particular the short name of a default-bundle policy), the
  resolved list contains the entry in its explicit form and does not contain the
  default-bundle form of \<open>n\<close>.
\<close>

theorem explicit_entry_overrides_default:
  assumes "makeManagedPolicies K iamCluster iamConfig managed enableSSM = Inr res"
    and "a \<in> set (AttachPolicyARNs iamConfig)"
    and "resourceName a = Some n"
  shows "NewString a \<in> set res \<and> defaultForm n \<notin> set res"
proof -
  have "n \<in> overriddenNames (AttachPolicyARNs iamConfig)"
    using assms(2,3) overriddenNames_iff by blast
  then show ?thesis
    using resolved_members [OF assms(1)] assms(2) by simp
qed

text \<open>
  The theorem at a self-managed node-group whose attach-list names the read-only
  container-registry policy, which the flags had put into the set.
\<close>

theorem explicit_entry_overrides_default_witness:
  "makeManagedPolicies iamDecls \<lparr>WithOIDC = None\<rparr>
     (plainConfig\<lparr>AttachPolicyARNs :=
        [''arn:aws:iam::aws:policy/AmazonEC2ContainerRegistryReadOnly'']\<rparr>) False False =
     Inr [NewString ''arn:aws:iam::aws:policy/AmazonEC2ContainerRegistryReadOnly''] \<and>
   resourceName ''arn:aws:iam::aws:policy/AmazonEC2ContainerRegistryReadOnly'' =
     Some ''AmazonEC2ContainerRegistryReadOnly'' \<and>
   ''AmazonEC2ContainerRegistryReadOnly'' \<in>
     initialPolicyNames iamDecls \<lparr>WithOIDC = None\<rparr>
       (plainConfig\<lparr>AttachPolicyARNs :=
          [''arn:aws:iam::aws:policy/AmazonEC2ContainerRegistryReadOnly'']\<rparr>) False False \<and>
   defaultForm ''AmazonEC2ContainerRegistryReadOnly'' \<notin>
     set [NewString ''arn:aws:iam::aws:policy/AmazonEC2ContainerRegistryReadOnly'']"
proof -
  let ?a = "''arn:aws:iam::aws:policy/AmazonEC2ContainerRegistryReadOnly''"
  let ?cfg = "plainConfig\<lparr>AttachPolicyARNs := [?a]\<rparr>"
  have r: "makeManagedPolicies iamDecls \<lparr>WithOIDC = None\<rparr> ?cfg False False =
             Inr [NewString ?a]"
    by code_simp
  have n: "resourceName ?a = Some ''AmazonEC2ContainerRegistryReadOnly''"
    by code_simp
  have i: "''AmazonEC2ContainerRegistryReadOnly'' \<in>
     initialPolicyNames iamDecls \<lparr>WithOIDC = None\<rparr> ?cfg False False"
    by code_simp
  have a: "?a \<in> set (AttachPolicyARNs ?cfg)" by simp
  from explicit_entry_overrides_default [OF r a n] r n i show ?thesis by simp
qed

text \<open>
  Claim C4, as amended.  When resolution succeeds, the explicit entries of the resolved
  list are exactly the entries of the caller's attach-list, and the policies resolved
  from short names are as follows.  For a self-managed node-group with the image-builder
  addon disabled, the read-only container-registry policy is in the list, also with a
  non-empty attach-list, unless an attach-list entry has the policy's short name as its
  resource name and so replaces it.  With image-builder enabled, the read-write policy
  is in the list under the same proviso, and the read-only policy is in the list exactly
  when the attach-list is empty and the node-group is managed or the default node
  policies contain it; this last part takes the read-only name to differ from the other
  four policy-name constants, which are declared outside this file.
\<close>

theorem registry_policy_by_image_builder:
  assumes "makeManagedPolicies K iamCluster iamConfig managed enableSSM = Inr res"
  shows "(\<not> managed \<and> \<not> IsEnabled (ImageBuilder (WithAddonPolicies iamConfig)) \<longrightarrow>
            (defaultForm (iamPolicyAmazonEC2ContainerRegistryReadOnly K) \<in> set res \<longleftrightarrow>
             (\<forall>a\<in>set (AttachPolicyARNs iamConfig).
                resourceName a \<noteq> Some (iamPolicyAmazonEC2ContainerRegistryReadOnly K)))) \<and>
         (IsEnabled (ImageBuilder (WithAddonPolicies iamConfig)) \<longrightarrow>
            (defaultForm (iamPolicyAmazonEC2ContainerRegistryPowerUser K) \<in> set res \<longleftrightarrow>
             (\<forall>a\<in>set (AttachPolicyARNs iamConfig).
                resourceName a \<noteq> Some (iamPolicyAmazonEC2ContainerRegistryPowerUser K))) \<and>
            (iamPolicyAmazonEC2ContainerRegistryReadOnly K \<notin>
               {iamPolicyAmazonEKSCNIPolicy K, iamPolicyAmazonEC2ContainerRegistryPowerUser K,
                iamPolicyCloudWatchAgentServerPolicy K,
                iamPolicyAmazonSSMManagedInstanceCore K} \<longrightarrow>
             (defaultForm (iamPolicyAmazonEC2ContainerRegistryReadOnly K) \<in> set res \<longleftrightarrow>
              AttachPolicyARNs iamConfig = [] \<and>
              (managed \<or>
               iamPolicyAmazonEC2ContainerRegistryReadOnly K \<in>
                 set (iamDefaultNodePolicies K))))) \<and>
         (\<forall>a. NewString a \<in> set res \<longleftrightarrow> a \<in> set (AttachPolicyARNs iamConfig))"
proof -
  let ?ro = "iamPolicyAmazonEC2ContainerRegistryReadOnly K"
  let ?pu = "iamPolicyAmazonEC2ContainerRegistryPowerUser K"
  let ?ib = "IsEnabled (ImageBuilder (WithAddonPolicies iamConfig))"
  let ?initial = "initialPolicyNames K iamCluster iamConfig managed enableSSM"
  note mem = resolved_members [OF assms]
  have form: "defaultForm n \<in> set res \<longleftrightarrow>
      n \<in> ?initial \<and> (\<forall>a\<in>set (AttachPolicyARNs iamConfig). resourceName a \<noteq> Some n)" for n
    using mem(2) [of n] overriddenNames_iff [of n "AttachPolicyARNs iamConfig"] by auto
  have ro: "?ro \<in> ?initial" if "\<not> managed" and "\<not> ?ib"
    using that by (simp add: initialPolicyNames_iff)
  have pu: "?pu \<in> ?initial" if "?ib"
    using that by (simp add: initialPolicyNames_iff)
  have ro_ib: "?ro \<in> ?initial \<longleftrightarrow>
      AttachPolicyARNs iamConfig = [] \<and> (managed \<or> ?ro \<in> set (iamDefaultNodePolicies K))"
    if "?ib" and "?ro \<notin> {iamPolicyAmazonEKSCNIPolicy K, ?pu,
                iamPolicyCloudWatchAgentServerPolicy K,
                iamPolicyAmazonSSMManagedInstanceCore K}"
    using that by (auto simp: initialPolicyNames_iff)
  have c1: "defaultForm ?ro \<in> set res \<longleftrightarrow>
      (\<forall>a\<in>set (AttachPolicyARNs iamConfig). resourceName a \<noteq> Some ?ro)"
    if "\<not> managed \<and> \<not> ?ib"
    using that ro by (simp add: form)
  have c2: "defaultForm ?pu \<in> set res \<longleftrightarrow>
      (\<forall>a\<in>set (AttachPolicyARNs iamConfig). resourceName a \<noteq> Some ?pu)"
    if "?ib"
    using that pu by (simp add: form)
  have c3: "defaultForm ?ro \<in> set res \<longleftrightarrow>
      AttachPolicyARNs iamConfig = [] \<and> (managed \<or> ?ro \<in> set (iamDefaultNodePolicies K))"
    if "?ib" and "?ro \<notin> {iamPolicyAmazonEKSCNIPolicy K, ?pu,
                iamPolicyCloudWatchAgentServerPolicy K,
                iamPolicyAmazonSSMManagedInstanceCore K}"
    using ro_ib [OF that] by (auto simp: form)
  have c4: "\<forall>a. NewString a \<in> set res \<longleftrightarrow> a \<in> set (AttachPolicyARNs iamConfig)"
    by (simp add: mem(1))
  from c1 c2 c3 c4 show ?thesis by blast
qed

text \<open>
  The theorem at three inputs: a self-managed node-group with an attach-list and
  image-builder off; a self-managed one with image-builder on; and a managed one with
  image-builder on and no attach-list.
\<close>

theorem registry_policy_by_image_builder_witness:
  "(makeManagedPolicies iamDecls \<lparr>WithOIDC = None\<rparr>
      (plainConfig\<lparr>AttachPolicyARNs := [''arn:aws:iam::aws:policy/AmazonS3ReadOnlyAccess'']\<rparr>)
      False False =
      Inr [NewString ''arn:aws:iam::aws:policy/AmazonS3ReadOnlyAccess'',
           defaultForm ''AmazonEC2ContainerRegistryReadOnly'']) \<and>
   resourceName ''arn:aws:iam::aws:policy/AmazonS3ReadOnlyAccess'' =
     Some ''AmazonS3ReadOnlyAccess'' \<and>
   (makeManagedPolicies iamDecls \<lparr>WithOIDC = Some True\<rparr>
      (plainConfig\<lparr>WithAddonPolicies := noAddons\<lparr>ImageBuilder := Some True\<rparr>\<rparr>)
      False False =
      Inr [defaultForm ''AmazonEC2ContainerRegistryPowerUser'',
           defaultForm ''AmazonEKSWorkerNodePolicy'']) \<and>
   defaultForm ''AmazonEC2ContainerRegistryReadOnly'' \<notin>
     set [defaultForm ''AmazonEC2ContainerRegistryPowerUser'',
          defaultForm ''AmazonEKSWorkerNodePolicy''] \<and>
   (makeManagedPolicies iamDecls \<lparr>WithOIDC = Some True\<rparr>
      (plainConfig\<lparr>WithAddonPolicies := noAddons\<lparr>ImageBuilder := Some True\<rparr>\<rparr>)
      True False =
      Inr [defaultForm ''AmazonEC2ContainerRegistryPowerUser'',
           defaultForm ''AmazonEC2ContainerRegistryReadOnly'',
           defaultForm ''AmazonEKSWorkerNodePolicy''])"
proof -
  let ?ib = "plainConfig\<lparr>WithAddonPolicies := noAddons\<lparr>ImageBuilder := Some True\<rparr>\<rparr>"
  let ?at = "plainConfig\<lparr>AttachPolicyARNs := [''arn:aws:iam::aws:policy/AmazonS3ReadOnlyAccess'']\<rparr>"
  have r1: "makeManagedPolicies iamDecls \<lparr>WithOIDC = None\<rparr> ?at False False =
      Inr [NewString ''arn:aws:iam::aws:policy/AmazonS3ReadOnlyAccess'',
           defaultForm ''AmazonEC2ContainerRegistryReadOnly'']"
    by code_simp
  have n1: "resourceName ''arn:aws:iam::aws:policy/AmazonS3ReadOnlyAccess'' =
     Some ''AmazonS3ReadOnlyAccess''"
    by code_simp
  have r2: "makeManagedPolicies iamDecls \<lparr>WithOIDC = Some True\<rparr> ?ib False False =
      Inr [defaultForm ''AmazonEC2ContainerRegistryPowerUser'',
           defaultForm ''AmazonEKSWorkerNodePolicy'']"
    by code_simp
  have r3: "makeManagedPolicies iamDecls \<lparr>WithOIDC = Some True\<rparr> ?ib True False =
      Inr [defaultForm ''AmazonEC2ContainerRegistryPowerUser'',
           defaultForm ''AmazonEC2ContainerRegistryReadOnly'',
           defaultForm ''AmazonEKSWorkerNodePolicy'']"
    by code_simp
  have ib: "IsEnabled (ImageBuilder (WithAddonPolicies ?ib))"
    "\<not> IsEnabled (ImageBuilder (WithAddonPolicies ?at))"
    "AttachPolicyARNs ?ib = []"
    by (simp_all add: IsEnabled_def noAddons_def plainConfig_def)
  have names: "iamPolicyAmazonEC2ContainerRegistryReadOnly iamDecls \<notin>
               {iamPolicyAmazonEKSCNIPolicy iamDecls,
                iamPolicyAmazonEC2ContainerRegistryPowerUser iamDecls,
                iamPolicyCloudWatchAgentServerPolicy iamDecls,
                iamPolicyAmazonSSMManagedInstanceCore iamDecls}"
    "iamPolicyAmazonEC2ContainerRegistryReadOnly iamDecls \<notin>
       set (iamDefaultNodePolicies iamDecls)"
    by (simp_all add: iamDecls_def)
  have "defaultForm ''AmazonEC2ContainerRegistryReadOnly'' \<notin>
     set [defaultForm ''AmazonEC2ContainerRegistryPowerUser'',
          defaultForm ''AmazonEKSWorkerNodePolicy'']"
    using registry_policy_by_image_builder [OF r2] ib names by (simp add: iamDecls_def)
  with r1 n1 r2 r3 registry_policy_by_image_builder [OF r1]
    registry_policy_by_image_builder [OF r3]
  show ?thesis by simp
qed

text \<open>
  Claim C4 as stated fails at four inputs.  For a managed node-group without an
  attach-list, enabling image-builder adds the read-write policy and the read-only
  policy stays in the list.  For a self-managed node-group with image-builder off, an
  attach-list entry whose resource name is the read-only policy's short name (here an
  object in a storage bucket) removes the policy, and the list holds the entry alone.
  With image-builder on, an entry named like the read-write policy removes that policy
  in the same way, and an entry that is the read-only policy's own ARN is kept in the
  list.
\<close>

theorem registry_policy_by_image_builder_counterexample:
  "makeManagedPolicies iamDecls \<lparr>WithOIDC = Some True\<rparr>
     (plainConfig\<lparr>WithAddonPolicies := noAddons\<lparr>ImageBuilder := Some True\<rparr>\<rparr>)
     True False =
   Inr [MakeFnSubString ''arn:${AWS::Partition}:iam::aws:policy/AmazonEC2ContainerRegistryPowerUser'',
        MakeFnSubString ''arn:${AWS::Partition}:iam::aws:policy/AmazonEC2ContainerRegistryReadOnly'',
        MakeFnSubString ''arn:${AWS::Partition}:iam::aws:policy/AmazonEKSWorkerNodePolicy''] \<and>
   makeManagedPolicies iamDecls \<lparr>WithOIDC = Some True\<rparr>
     (plainConfig\<lparr>AttachPolicyARNs :=
        [''arn:aws:s3:::bucket/AmazonEC2ContainerRegistryReadOnly'']\<rparr>)
     False False =
   Inr [NewString ''arn:aws:s3:::bucket/AmazonEC2ContainerRegistryReadOnly''] \<and>
   makeManagedPolicies iamDecls \<lparr>WithOIDC = Some True\<rparr>
     (plainConfig\<lparr>AttachPolicyARNs :=
        [''arn:aws:s3:::bucket/AmazonEC2ContainerRegistryPowerUser''],
        WithAddonPolicies := noAddons\<lparr>ImageBuilder := Some True\<rparr>\<rparr>)
     False False =
   Inr [NewString ''arn:aws:s3:::bucket/AmazonEC2ContainerRegistryPowerUser''] \<and>
   makeManagedPolicies iamDecls \<lparr>WithOIDC = Some True\<rparr>
     (plainConfig\<lparr>AttachPolicyARNs :=
        [''arn:aws:iam::aws:policy/AmazonEC2ContainerRegistryReadOnly''],
        WithAddonPolicies := noAddons\<lparr>ImageBuilder := Some True\<rparr>\<rparr>)
     False False =
   Inr [NewString ''arn:aws:iam::aws:policy/AmazonEC2ContainerRegistryReadOnly'',
        MakeFnSubString ''arn:${AWS::Partition}:iam::aws:policy/AmazonEC2ContainerRegistryPowerUser'']"
  by code_simp

text \<open>
  Claim C6.  For every configuration with an empty attach-list, resolution succeeds and
  the resolved list contains the CNI-networking policy exactly when workload-identity
  federation is not enabled for the cluster.  The CNI policy name is a constant declared
  outside this file; it is taken to be neither in the default node policies nor the name
  of another policy constant.
\<close>

theorem cni_policy_by_oidc:
  assumes "AttachPolicyARNs iamConfig = []"
    and "iamPolicyAmazonEKSCNIPolicy K \<notin>
           set (iamDefaultNodePolicies K) \<union>
           {iamPolicyAmazonEC2ContainerRegistryPowerUser K,
            iamPolicyAmazonEC2ContainerRegistryReadOnly K,
            iamPolicyCloudWatchAgentServerPolicy K,
            iamPolicyAmazonSSMManagedInstanceCore K}"
  shows "\<exists>res. makeManagedPolicies K iamCluster iamConfig managed enableSSM = Inr res \<and>
           (defaultForm (iamPolicyAmazonEKSCNIPolicy K) \<in> set res \<longleftrightarrow>
            \<not> IsEnabled (WithOIDC iamCluster))"
proof -
  from assms(1) obtain res
    where res: "makeManagedPolicies K iamCluster iamConfig managed enableSSM = Inr res"
    by (simp add: makeManagedPolicies_Inr)
  have "overriddenNames (AttachPolicyARNs iamConfig) = {}"
    using assms(1) by (simp add: overriddenNames_def List.map_filter_simps)
  then have "defaultForm (iamPolicyAmazonEKSCNIPolicy K) \<in> set res \<longleftrightarrow>
      iamPolicyAmazonEKSCNIPolicy K \<in> initialPolicyNames K iamCluster iamConfig managed enableSSM"
    by (simp add: resolved_members(2) [OF res])
  also have "\<dots> \<longleftrightarrow> \<not> IsEnabled (WithOIDC iamCluster)"
    using assms by (auto simp: initialPolicyNames_iff)
  finally show ?thesis using res by blast
qed

text \<open>
  The theorem at the configuration without attach-list and addons, once with federation
  switched off and once with federation enabled.
\<close>

theorem cni_policy_by_oidc_witness:
  "AttachPolicyARNs plainConfig = [] \<and>
   (\<exists>res. makeManagedPolicies iamDecls \<lparr>WithOIDC = Some False\<rparr> plainConfig False False = Inr res \<and>
      defaultForm ''AmazonEKS_CNI_Policy'' \<in> set res) \<and>
   (\<exists>res. makeManagedPolicies iamDecls \<lparr>WithOIDC = Some True\<rparr> plainConfig False False = Inr res \<and>
      defaultForm ''AmazonEKS_CNI_Policy'' \<notin> set res)"
proof -
  have e: "AttachPolicyARNs plainConfig = []" by (simp add: plainConfig_def)
  have names: "iamPolicyAmazonEKSCNIPolicy iamDecls \<notin>
           set (iamDefaultNodePolicies iamDecls) \<union>
           {iamPolicyAmazonEC2ContainerRegistryPowerUser iamDecls,
            iamPolicyAmazonEC2ContainerRegistryReadOnly iamDecls,
            iamPolicyCloudWatchAgentServerPolicy iamDecls,
            iamPolicyAmazonSSMManagedInstanceCore iamDecls}"
    by (simp add: iamDecls_def)
  have cni: "iamPolicyAmazonEKSCNIPolicy iamDecls = ''AmazonEKS_CNI_Policy''"
    by (simp add: iamDecls_def)
  show ?thesis
    using cni_policy_by_oidc [OF e names, of "\<lparr>WithOIDC = Some False\<rparr>" False False]
      cni_policy_by_oidc [OF e names, of "\<lparr>WithOIDC = Some True\<rparr>" False False]
    by (simp add: e cni IsEnabled_def)
qed

text \<open>
  Claim C7, as amended.  When resolution succeeds, the policies resolved from the set
  of short names are free of duplicates and differ from every explicit entry, so the
  resolved list has no duplicate exactly when the caller's attach-list has none (the
  attach-list is copied as it is); and no policy that an attach-list entry overrides
  reappears in its default-bundle form.
\<close>

theorem resolved_duplicates_only_from_attach_list:
  assumes "makeManagedPolicies K iamCluster iamConfig managed enableSSM = Inr res"
  shows "distinct (drop (length (AttachPolicyARNs iamConfig)) res) \<and>
         (distinct res \<longleftrightarrow> distinct (AttachPolicyARNs iamConfig)) \<and>
         (\<forall>a\<in>set (AttachPolicyARNs iamConfig). \<forall>n.
            resourceName a = Some n \<longrightarrow> defaultForm n \<notin> set res)"
proof -
  let ?S = "initialPolicyNames K iamCluster iamConfig managed enableSSM -
            overriddenNames (AttachPolicyARNs iamConfig)"
  let ?explicit = "map NewString (AttachPolicyARNs iamConfig)"
  let ?defaults = "makePolicyARNs (sets_List ?S)"
  have fin: "finite ?S" by (simp add: finite_initialPolicyNames)
  have res: "res = ?explicit @ ?defaults"
    using assms by (simp add: makeManagedPolicies_Inr)
  have d: "distinct ?defaults"
    using sets_List_props(3) [OF fin] by (simp add: distinct_makePolicyARNs)
  have disjoint: "set ?explicit \<inter> set ?defaults = {}"
    by (auto simp: makePolicyARNs_def)
  have e: "distinct ?explicit \<longleftrightarrow> distinct (AttachPolicyARNs iamConfig)"
    by (simp add: distinct_map inj_on_def)
  have "drop (length (AttachPolicyARNs iamConfig)) res = ?defaults"
    unfolding res by simp
  moreover have "distinct res \<longleftrightarrow> distinct (AttachPolicyARNs iamConfig)"
    unfolding res using d disjoint e by simp
  moreover have "defaultForm n \<notin> set res"
    if "a \<in> set (AttachPolicyARNs iamConfig)" and "resourceName a = Some n" for a n
  proof -
    from that have "n \<in> overriddenNames (AttachPolicyARNs iamConfig)"
      using overriddenNames_iff by blast
    then show ?thesis by (simp add: resolved_members(2) [OF assms])
  qed
  ultimately show ?thesis using d by auto
qed

text \<open>
  The theorem at a self-managed node-group whose attach-list names the read-only
  container-registry policy and one other policy.
\<close>

theorem resolved_duplicates_only_from_attach_list_witness:
  "makeManagedPolicies iamDecls \<lparr>WithOIDC = None\<rparr>
     (plainConfig\<lparr>AttachPolicyARNs :=
        [''arn:aws:iam::aws:policy/AmazonEC2ContainerRegistryReadOnly'',
         ''arn:aws:iam::aws:policy/AmazonS3ReadOnlyAccess'']\<rparr>) False True =
     Inr [NewString ''arn:aws:iam::aws:policy/AmazonEC2ContainerRegistryReadOnly'',
          NewString ''arn:aws:iam::aws:policy/AmazonS3ReadOnlyAccess'',
          defaultForm ''AmazonSSMManagedInstanceCore''] \<and>
   resourceName ''arn:aws:iam::aws:policy/AmazonEC2ContainerRegistryReadOnly'' =
     Some ''AmazonEC2ContainerRegistryReadOnly'' \<and>
   distinct [NewString ''arn:aws:iam::aws:policy/AmazonEC2ContainerRegistryReadOnly'',
          NewString ''arn:aws:iam::aws:policy/AmazonS3ReadOnlyAccess'',
          defaultForm ''AmazonSSMManagedInstanceCore''] \<and>
   defaultForm ''AmazonEC2ContainerRegistryReadOnly'' \<notin>
     set [NewString ''arn:aws:iam::aws:policy/AmazonEC2ContainerRegistryReadOnly'',
          NewString ''arn:aws:iam::aws:policy/AmazonS3ReadOnlyAccess'',
          defaultForm ''AmazonSSMManagedInstanceCore'']"
proof -
  let ?a = "''arn:aws:iam::aws:policy/AmazonEC2ContainerRegistryReadOnly''"
  let ?b = "''arn:aws:iam::aws:policy/AmazonS3ReadOnlyAccess''"
  let ?cfg = "plainConfig\<lparr>AttachPolicyARNs := [?a, ?b]\<rparr>"
  have r: "makeManagedPolicies iamDecls \<lparr>WithOIDC = None\<rparr> ?cfg False True =
     Inr [NewString ?a, NewString ?b, defaultForm ''AmazonSSMManagedInstanceCore'']"
    by code_simp
  have n: "resourceName ?a = Some ''AmazonEC2ContainerRegistryReadOnly''"
    by code_simp
  have ab: "distinct (AttachPolicyARNs ?cfg)" by simp
  from resolved_duplicates_only_from_attach_list [OF r] r n ab show ?thesis
    by simp
qed

text \<open>
  Claim C7 as stated fails: an attach-list that repeats an ARN is copied into the
  result with the repetition.
\<close>

theorem repeated_attach_entry_counterexample:
  "makeManagedPolicies iamDecls \<lparr>WithOIDC = None\<rparr>
     (plainConfig\<lparr>AttachPolicyARNs :=
        [''arn:aws:iam::aws:policy/AmazonS3ReadOnlyAccess'',
         ''arn:aws:iam::aws:policy/AmazonS3ReadOnlyAccess'']\<rparr>) True False =
     Inr [NewString ''arn:aws:iam::aws:policy/AmazonS3ReadOnlyAccess'',
          NewString ''arn:aws:iam::aws:policy/AmazonS3ReadOnlyAccess''] \<and>
   \<not> distinct [NewString ''arn:aws:iam::aws:policy/AmazonS3ReadOnlyAccess'',
                NewString ''arn:aws:iam::aws:policy/AmazonS3ReadOnlyAccess'']"
  by code_simp

text \<open>
  Claim C8.  When resolution succeeds, the resolved list is the attach-list, entry by
  entry in the caller's order, followed by the remaining short names (those put into
  the set by the flags and not overridden by an attach-list entry) resolved to policy
  ARNs, in strictly ascending lexicographic order of the short names.  The list of
  remaining names is thereby determined by the configuration alone; the model is a
  function, so the same configuration always yields the same list.
\<close>

theorem resolved_list_order:
  assumes "makeManagedPolicies K iamCluster iamConfig managed enableSSM = Inr res"
  shows "\<exists>names.
           res = map NewString (AttachPolicyARNs iamConfig) @ makePolicyARNs names \<and>
           sorted names \<and> distinct names \<and>
           set names = initialPolicyNames K iamCluster iamConfig managed enableSSM -
                       overriddenNames (AttachPolicyARNs iamConfig)"
proof -
  let ?S = "initialPolicyNames K iamCluster iamConfig managed enableSSM -
            overriddenNames (AttachPolicyARNs iamConfig)"
  have fin: "finite ?S" by (simp add: finite_initialPolicyNames)
  have "res = map NewString (AttachPolicyARNs iamConfig) @ makePolicyARNs (sets_List ?S)"
    using assms by (simp add: makeManagedPolicies_Inr)
  with sets_List_props [OF fin] show ?thesis by blast
qed

text \<open>
  The theorem at a self-managed node-group with two attach-list entries, not in
  alphabetical order, and three policies from the flags.
\<close>

theorem resolved_list_order_witness:
  "makeManagedPolicies iamDecls \<lparr>WithOIDC = None\<rparr>
     (plainConfig\<lparr>AttachPolicyARNs :=
        [''arn:aws:iam::aws:policy/Zeta'', ''arn:aws:iam::aws:policy/Alpha''],
        WithAddonPolicies := noAddons\<lparr>CloudWatch := Some True\<rparr>\<rparr>) False True =
     Inr [NewString ''arn:aws:iam::aws:policy/Zeta'', NewString ''arn:aws:iam::aws:policy/Alpha'',
          defaultForm ''AmazonEC2ContainerRegistryReadOnly'',
          defaultForm ''AmazonSSMManagedInstanceCore'',
          defaultForm ''CloudWatchAgentServerPolicy''] \<and>
   (\<exists>names.
      [NewString ''arn:aws:iam::aws:policy/Zeta'', NewString ''arn:aws:iam::aws:policy/Alpha'',
       defaultForm ''AmazonEC2ContainerRegistryReadOnly'',
       defaultForm ''AmazonSSMManagedInstanceCore'',
       defaultForm ''CloudWatchAgentServerPolicy''] =
      map NewString [''arn:aws:iam::aws:policy/Zeta'', ''arn:aws:iam::aws:policy/Alpha''] @
      makePolicyARNs names \<and> sorted names \<and> distinct names)"
proof -
  let ?cfg = "plainConfig\<lparr>AttachPolicyARNs :=
        [''arn:aws:iam::aws:policy/Zeta'', ''arn:aws:iam::aws:policy/Alpha''],
        WithAddonPolicies := noAddons\<lparr>CloudWatch := Some True\<rparr>\<rparr>"
  have r: "makeManagedPolicies iamDecls \<lparr>WithOIDC = None\<rparr> ?cfg False True =
     Inr [NewString ''arn:aws:iam::aws:policy/Zeta'', NewString ''arn:aws:iam::aws:policy/Alpha'',
          defaultForm ''AmazonEC2ContainerRegistryReadOnly'',
          defaultForm ''AmazonSSMManagedInstanceCore'',
          defaultForm ''CloudWatchAgentServerPolicy'']"
    by code_simp
  from resolved_list_order [OF r] obtain names where
    "[NewString ''arn:aws:iam::aws:policy/Zeta'', NewString ''arn:aws:iam::aws:policy/Alpha'',
       defaultForm ''AmazonEC2ContainerRegistryReadOnly'',
       defaultForm ''AmazonSSMManagedInstanceCore'',
       defaultForm ''CloudWatchAgentServerPolicy''] =
      map NewString (AttachPolicyARNs ?cfg) @ makePolicyARNs names"
    "sorted names" "distinct names"
    by blast
  then have "\<exists>names.
      [NewString ''arn:aws:iam::aws:policy/Zeta'', NewString ''arn:aws:iam::aws:policy/Alpha'',
       defaultForm ''AmazonEC2ContainerRegistryReadOnly'',
       defaultForm ''AmazonSSMManagedInstanceCore'',
       defaultForm ''CloudWatchAgentServerPolicy''] =
      map NewString [''arn:aws:iam::aws:policy/Zeta'', ''arn:aws:iam::aws:policy/Alpha''] @
      makePolicyARNs names \<and> sorted names \<and> distinct names"
    by (intro exI [of _ names]) simp
  with r show ?thesis by blast
qed

section \<open>The calls of \<open>createRole\<close>\<close>

lemma if_append_same: "(if b then t @ xs else t) = t @ (if b then xs else [])"
  by simp

lemma if_append_both: "(if b then t @ xs else t @ ys) = t @ (if b then xs else ys)"
  by simp

lemma newCalls_let: "newCalls t (fst (Let x f)) = (let y = x in newCalls t (fst (f y)))"
  by simp

lemma app_let: "f (Let x g) = (let y = x in f (g y))"
  by simp

lemma newCalls_append: "newCalls t (t @ calls) = calls"
  by (simp add: newCalls_def)

lemma statementNames_simps:
  "statementNames [] = []"
  "statementNames (AttachAllowPolicyCall name refRole resources actions # calls) =
     name # statementNames calls"
  "statementNames (NewResourceCall name resource # calls) = statementNames calls"
  "statementNames (calls @ calls') = statementNames calls @ statementNames calls'"
  "statementNames (if b then calls else calls') =
     (if b then statementNames calls else statementNames calls')"
  by (simp_all add: statementNames_def List.map_filter_simps List.map_filter_def)

lemma createRole_success:
  "snd (createRole K t iamCluster iamConfig managed enableSSM) = None \<longleftrightarrow>
   (\<exists>mp. makeManagedPolicies K iamCluster iamConfig managed enableSSM = Inr mp)"
  by (cases "makeManagedPolicies K iamCluster iamConfig managed enableSSM")
     (simp_all add: createRole_def Let_def split_def)

lemma createRole_statementNames:
  assumes "makeManagedPolicies K iamCluster iamConfig managed enableSSM = Inr mp"
  shows "statementNames
           (newCalls t (fst (createRole K t iamCluster iamConfig managed enableSSM))) =
     (if IsEnabled (AutoScaler (WithAddonPolicies iamConfig))
      then [''PolicyAutoScaling''] else []) @
     (if IsEnabled (CertManager (WithAddonPolicies iamConfig))
      then [''PolicyCertManagerChangeSet'', ''PolicyCertManagerHostedZones'',
            ''PolicyCertManagerGetChange'']
      else if IsEnabled (ExternalDNS (WithAddonPolicies iamConfig))
      then [''PolicyExternalDNSChangeSet'', ''PolicyExternalDNSHostedZones'']
      else []) @
     (if IsEnabled (AppMesh (WithAddonPolicies iamConfig))
      then [''PolicyAppMesh''] else []) @
     (if IsEnabled (AppMeshPreview (WithAddonPolicies iamConfig))
      then [''PolicyAppMeshPreview''] else []) @
     (if IsEnabled (EBS (WithAddonPolicies iamConfig))
      then [''PolicyEBS''] else []) @
     (if IsEnabled (FSX (WithAddonPolicies iamConfig))
      then [''PolicyFSX'', ''PolicyServiceLinkRole''] else []) @
     (if IsEnabled (EFS (WithAddonPolicies iamConfig))
      then [''PolicyEFS'', ''PolicyEFSEC2''] else []) @
     (if IsEnabled (ALBIngress (WithAddonPolicies iamConfig))
      then [''PolicyALBIngress''] else []) @
     (if IsEnabled (XRay (WithAddonPolicies iamConfig))
      then [''PolicyXRay''] else [])"
  by (simp add: createRole_def assms newResource_def attachAllowPolicy_def
      if_append_same if_append_both newCalls_let newCalls_append statementNames_simps
      app_let [of statementNames] split del: if_split cong: if_cong)

lemma subseq_keeps_distinct: "subseq xs ys \<Longrightarrow> distinct ys \<Longrightarrow> distinct xs"
proof (induction rule: list_emb.induct)
  case (list_emb_Cons2 x y xs ys)
  then show ?case using list_emb_set [of "(=)" xs ys x] by auto
qed auto

lemma hasResources_filter_simps:
  "filter (hasResources r) (AttachAllowPolicyCall name refRole resources actions # calls) =
     (if resources = r then AttachAllowPolicyCall name refRole resources actions #
                            filter (hasResources r) calls
      else filter (hasResources r) calls)"
  "filter (hasResources r) (NewResourceCall name resource # calls) =
     filter (hasResources r) calls"
  "filter (hasResources r) (if b then calls else calls') =
     (if b then filter (hasResources r) calls else filter (hasResources r) calls')"
  by simp_all

lemma addARNPartitionPrefix_eq: "addARNPartitionPrefix a = addARNPartitionPrefix b \<longleftrightarrow> a = b"
  by (simp add: addARNPartitionPrefix_def)

lemma actionsOf_append: "actionsOf n (calls @ calls') = actionsOf n calls @ actionsOf n calls'"
  by (induction n calls rule: actionsOf.induct) simp_all

lemma actionsOf_if:
  "actionsOf n (if b then calls else calls') = (if b then actionsOf n calls else actionsOf n calls')"
  by simp

lemma createRole_hostedzone_calls:
  assumes "makeManagedPolicies K iamCluster iamConfig managed enableSSM = Inr mp"
    and "IsEnabled (CertManager (WithAddonPolicies iamConfig))"
  shows "filter (hasResources (ResourceValue (addARNPartitionPrefix ''route53:::hostedzone/*'')))
           (newCalls t (fst (createRole K t iamCluster iamConfig managed enableSSM))) =
         [AttachAllowPolicyCall ''PolicyCertManagerChangeSet''
            (MakeRef (cfnIAMInstanceRoleName K))
            (ResourceValue (addARNPartitionPrefix ''route53:::hostedzone/*''))
            [''route53:ChangeResourceRecordSets'']]"
  by (simp add: createRole_def assms newResource_def attachAllowPolicy_def
      if_append_same if_append_both newCalls_let newCalls_append hasResources_filter_simps
      addARNPartitionPrefix_eq
      app_let [of "filter (hasResources (ResourceValue (addARNPartitionPrefix ''route53:::hostedzone/*'')))"]
      split del: if_split cong: if_cong)

lemma createRole_hostedZones_actions:
  assumes "makeManagedPolicies K iamCluster iamConfig managed enableSSM = Inr mp"
    and "IsEnabled (CertManager (WithAddonPolicies iamConfig))"
  shows "actionsOf ''PolicyCertManagerHostedZones''
           (newCalls t (fst (createRole K t iamCluster iamConfig managed enableSSM))) =
         [[''route53:ListResourceRecordSets'', ''route53:ListHostedZonesByName''] @
          (if IsEnabled (ExternalDNS (WithAddonPolicies iamConfig))
           then [''route53:ListHostedZones'', ''route53:ListTagsForResource''] else [])]"
  by (simp add: createRole_def assms newResource_def attachAllowPolicy_def
      if_append_same if_append_both newCalls_let newCalls_append actionsOf_append actionsOf_if
      app_let [of "actionsOf ''PolicyCertManagerHostedZones''"]
      split del: if_split cong: if_cong)

section \<open>Properties of \<open>createRole\<close>\<close>

lemma extended_psubset: "c \<notin> set [a, b] \<Longrightarrow> set [a, b] \<subset> set [a, b, c, d]"
  by auto

lemma extended_set: "set [a, b, c, d] = set [a, b] \<union> {c, d}"
  by auto

text \<open>
  Claim C5.  For every configuration with both certificate-manager and external-DNS
  enabled, a \<open>createRole\<close> invocation that returns no error attaches exactly one
  statement scoped to the hosted-zone pattern, the change-record-sets statement of
  certificate-manager; neither external-DNS statement is attached; and the action list
  of the hosted-zone listing statement is a strict superset of the one attached when
  certificate-manager is enabled without external-DNS, with
  \<open>route53:ListHostedZones\<close> and \<open>route53:ListTagsForResource\<close> in addition.
\<close>

theorem cert_manager_with_external_dns:
  assumes "IsEnabled (CertManager (WithAddonPolicies both))"
    and "IsEnabled (ExternalDNS (WithAddonPolicies both))"
    and "createRole K t iamCluster both managed enableSSM = (t', None)"
    and "IsEnabled (CertManager (WithAddonPolicies only))"
    and "\<not> IsEnabled (ExternalDNS (WithAddonPolicies only))"
    and "createRole K0 t0 iamCluster0 only managed0 enableSSM0 = (t0', None)"
  shows "filter (hasResources (ResourceValue (addARNPartitionPrefix ''route53:::hostedzone/*'')))
           (newCalls t t') =
         [AttachAllowPolicyCall ''PolicyCertManagerChangeSet''
            (MakeRef (cfnIAMInstanceRoleName K))
            (ResourceValue (addARNPartitionPrefix ''route53:::hostedzone/*''))
            [''route53:ChangeResourceRecordSets'']] \<and>
         ''PolicyExternalDNSChangeSet'' \<notin> set (statementNames (newCalls t t')) \<and>
         ''PolicyExternalDNSHostedZones'' \<notin> set (statementNames (newCalls t t')) \<and>
         (\<exists>actions actions0.
            actionsOf ''PolicyCertManagerHostedZones'' (newCalls t t') = [actions] \<and>
            actionsOf ''PolicyCertManagerHostedZones'' (newCalls t0 t0') = [actions0] \<and>
            set actions0 \<subset> set actions \<and>
            set actions = set actions0 \<union>
              {''route53:ListHostedZones'', ''route53:ListTagsForResource''})"
proof -
  from assms(3) obtain mp
    where mp: "makeManagedPolicies K iamCluster both managed enableSSM = Inr mp"
    using createRole_success [of K t iamCluster both managed enableSSM] by auto
  from assms(6) obtain mp0
    where mp0: "makeManagedPolicies K0 iamCluster0 only managed0 enableSSM0 = Inr mp0"
    using createRole_success [of K0 t0 iamCluster0 only managed0 enableSSM0] by auto
  have t': "t' = fst (createRole K t iamCluster both managed enableSSM)"
    using assms(3) by simp
  have t0': "t0' = fst (createRole K0 t0 iamCluster0 only managed0 enableSSM0)"
    using assms(6) by simp
  have one: "filter (hasResources (ResourceValue (addARNPartitionPrefix ''route53:::hostedzone/*'')))
           (newCalls t t') =
         [AttachAllowPolicyCall ''PolicyCertManagerChangeSet''
            (MakeRef (cfnIAMInstanceRoleName K))
            (ResourceValue (addARNPartitionPrefix ''route53:::hostedzone/*''))
            [''route53:ChangeResourceRecordSets'']]"
    unfolding t' by (rule createRole_hostedzone_calls [OF mp assms(1)])
  have names: "statementNames (newCalls t t') =
     (if IsEnabled (AutoScaler (WithAddonPolicies both)) then [''PolicyAutoScaling''] else []) @
     [''PolicyCertManagerChangeSet'', ''PolicyCertManagerHostedZones'',
      ''PolicyCertManagerGetChange''] @
     (if IsEnabled (AppMesh (WithAddonPolicies both)) then [''PolicyAppMesh''] else []) @
     (if IsEnabled (AppMeshPreview (WithAddonPolicies both))
      then [''PolicyAppMeshPreview''] else []) @
     (if IsEnabled (EBS (WithAddonPolicies both)) then [''PolicyEBS''] else []) @
     (if IsEnabled (FSX (WithAddonPolicies both))
      then [''PolicyFSX'', ''PolicyServiceLinkRole''] else []) @
     (if IsEnabled (EFS (WithAddonPolicies both)) then [''PolicyEFS'', ''PolicyEFSEC2''] else []) @
     (if IsEnabled (ALBIngress (WithAddonPolicies both)) then [''PolicyALBIngress''] else []) @
     (if IsEnabled (XRay (WithAddonPolicies both)) then [''PolicyXRay''] else [])"
    unfolding t' createRole_statementNames [OF mp] by (simp only: assms(1) if_True)
  have no_cs: "''PolicyExternalDNSChangeSet'' \<notin> set (statementNames (newCalls t t'))"
    unfolding names by (simp split del: if_split cong: if_cong)
  have no_hz: "''PolicyExternalDNSHostedZones'' \<notin> set (statementNames (newCalls t t'))"
    unfolding names by (simp split del: if_split cong: if_cong)
  have a: "actionsOf ''PolicyCertManagerHostedZones'' (newCalls t t') =
      [[''route53:ListResourceRecordSets'', ''route53:ListHostedZonesByName'',
        ''route53:ListHostedZones'', ''route53:ListTagsForResource'']]"
    unfolding t' createRole_hostedZones_actions [OF mp assms(1)]
    by (simp only: assms(2) if_True append.simps)
  have a0: "actionsOf ''PolicyCertManagerHostedZones'' (newCalls t0 t0') =
      [[''route53:ListResourceRecordSets'', ''route53:ListHostedZonesByName'']]"
    unfolding t0' createRole_hostedZones_actions [OF mp0 assms(4)]
    by (simp only: assms(5) if_False append.simps append_Nil2)
  have sub: "set [''route53:ListResourceRecordSets'', ''route53:ListHostedZonesByName''] \<subset>
        set [''route53:ListResourceRecordSets'', ''route53:ListHostedZonesByName'',
             ''route53:ListHostedZones'', ''route53:ListTagsForResource'']"
  proof -
    have "''route53:ListHostedZones'' \<notin>
        set [''route53:ListResourceRecordSets'', ''route53:ListHostedZonesByName'']"
      by simp
    then show ?thesis by (rule extended_psubset)
  qed
  have un: "set [''route53:ListResourceRecordSets'', ''route53:ListHostedZonesByName'',
             ''route53:ListHostedZones'', ''route53:ListTagsForResource''] =
        set [''route53:ListResourceRecordSets'', ''route53:ListHostedZonesByName''] \<union>
        {''route53:ListHostedZones'', ''route53:ListTagsForResource''}"
    by (rule extended_set)
  have "\<exists>actions actions0.
            actionsOf ''PolicyCertManagerHostedZones'' (newCalls t t') = [actions] \<and>
            actionsOf ''PolicyCertManagerHostedZones'' (newCalls t0 t0') = [actions0] \<and>
            set actions0 \<subset> set actions \<and>
            set actions = set actions0 \<union>
              {''route53:ListHostedZones'', ''route53:ListTagsForResource''}"
    apply (rule exI, rule exI)
    apply (rule conjI, rule a)
    apply (rule conjI, rule a0)
    apply (rule conjI, rule sub)
    apply (rule un)
    done
  with one no_cs no_hz show ?thesis by (simp only: simp_thms)
qed

text \<open>
  The theorem at two configurations without attach-list: one with both addons enabled,
  one with certificate-manager alone.
\<close>

theorem cert_manager_with_external_dns_witness:
  "snd (createRole iamDecls [] \<lparr>WithOIDC = None\<rparr>
     (plainConfig\<lparr>WithAddonPolicies :=
        noAddons\<lparr>CertManager := Some True, ExternalDNS := Some True\<rparr>\<rparr>) False False) =
     None \<and>
   snd (createRole iamDecls [] \<lparr>WithOIDC = None\<rparr>
     (plainConfig\<lparr>WithAddonPolicies := noAddons\<lparr>CertManager := Some True\<rparr>\<rparr>)
     False False) = None \<and>
   statementNames (newCalls []
     (fst (createRole iamDecls [] \<lparr>WithOIDC = None\<rparr>
        (plainConfig\<lparr>WithAddonPolicies :=
           noAddons\<lparr>CertManager := Some True, ExternalDNS := Some True\<rparr>\<rparr>) False False))) =
     [''PolicyCertManagerChangeSet'', ''PolicyCertManagerHostedZones'',
      ''PolicyCertManagerGetChange''] \<and>
   (\<exists>actions actions0.
      actionsOf ''PolicyCertManagerHostedZones'' (newCalls []
        (fst (createRole iamDecls [] \<lparr>WithOIDC = None\<rparr>
           (plainConfig\<lparr>WithAddonPolicies :=
              noAddons\<lparr>CertManager := Some True, ExternalDNS := Some True\<rparr>\<rparr>)
           False False))) = [actions] \<and>
      actionsOf ''PolicyCertManagerHostedZones'' (newCalls []
        (fst (createRole iamDecls [] \<lparr>WithOIDC = None\<rparr>
           (plainConfig\<lparr>WithAddonPolicies := noAddons\<lparr>CertManager := Some True\<rparr>\<rparr>)
           False False))) = [actions0] \<and>
      set actions0 \<subset> set actions)"
proof -
  let ?both = "plainConfig\<lparr>WithAddonPolicies :=
        noAddons\<lparr>CertManager := Some True, ExternalDNS := Some True\<rparr>\<rparr>"
  let ?only = "plainConfig\<lparr>WithAddonPolicies := noAddons\<lparr>CertManager := Some True\<rparr>\<rparr>"
  let ?c = "\<lparr>WithOIDC = None\<rparr>"
  have s1: "snd (createRole iamDecls [] ?c ?both False False) = None"
    by code_simp
  have s2: "snd (createRole iamDecls [] ?c ?only False False) = None"
    by code_simp
  have r1: "createRole iamDecls [] ?c ?both False False =
             (fst (createRole iamDecls [] ?c ?both False False), None)"
    by (rule prod_eqI) (simp_all only: fst_conv snd_conv s1)
  have r2: "createRole iamDecls [] ?c ?only False False =
             (fst (createRole iamDecls [] ?c ?only False False), None)"
    by (rule prod_eqI) (simp_all only: fst_conv snd_conv s2)
  have f: "IsEnabled (CertManager (WithAddonPolicies ?both))"
    "IsEnabled (ExternalDNS (WithAddonPolicies ?both))"
    "IsEnabled (CertManager (WithAddonPolicies ?only))"
    "\<not> IsEnabled (ExternalDNS (WithAddonPolicies ?only))"
    by (simp_all add: IsEnabled_def noAddons_def)
  have n: "statementNames (newCalls [] (fst (createRole iamDecls [] ?c ?both False False))) =
     [''PolicyCertManagerChangeSet'', ''PolicyCertManagerHostedZones'',
      ''PolicyCertManagerGetChange'']"
    by code_simp
  have "\<exists>actions actions0.
      actionsOf ''PolicyCertManagerHostedZones''
        (newCalls [] (fst (createRole iamDecls [] ?c ?both False False))) = [actions] \<and>
      actionsOf ''PolicyCertManagerHostedZones''
        (newCalls [] (fst (createRole iamDecls [] ?c ?only False False))) = [actions0] \<and>
      set actions0 \<subset> set actions"
    using cert_manager_with_external_dns [OF f(1,2) r1 f(3,4) r2] by (elim conjE exE) blast
  then show ?thesis
    by (intro conjI s1 s2 n)
qed

text \<open>
  Claim C10.  Within one successful \<open>createRole\<close> invocation, the statement names of
  the \<open>attachAllowPolicy\<close> calls are pairwise distinct.
\<close>

theorem statement_names_distinct:
  assumes "createRole K t iamCluster iamConfig managed enableSSM = (t', None)"
  shows "distinct (statementNames (newCalls t t'))"
proof -
  let ?all = "[''PolicyAutoScaling''] @
     [''PolicyCertManagerChangeSet'', ''PolicyCertManagerHostedZones'',
      ''PolicyCertManagerGetChange'', ''PolicyExternalDNSChangeSet'',
      ''PolicyExternalDNSHostedZones''] @
     [''PolicyAppMesh''] @ [''PolicyAppMeshPreview''] @ [''PolicyEBS''] @
     [''PolicyFSX'', ''PolicyServiceLinkRole''] @ [''PolicyEFS'', ''PolicyEFSEC2''] @
     [''PolicyALBIngress''] @ [''PolicyXRay'']"
  from assms obtain mp
    where mp: "makeManagedPolicies K iamCluster iamConfig managed enableSSM = Inr mp"
    using createRole_success [of K t iamCluster iamConfig managed enableSSM] by auto
  have t': "t' = fst (createRole K t iamCluster iamConfig managed enableSSM)"
    using assms by simp
  have "subseq (statementNames (newCalls t t')) ?all"
    unfolding t' createRole_statementNames [OF mp]
    by (intro list_emb_append_mono) simp_all
  moreover have "distinct ?all" by simp
  ultimately show ?thesis by (rule subseq_keeps_distinct)
qed

text \<open>
  The theorem at a configuration with external-DNS, FSx and EFS enabled.
\<close>

theorem statement_names_distinct_witness:
  "snd (createRole iamDecls [] \<lparr>WithOIDC = None\<rparr>
     (plainConfig\<lparr>WithAddonPolicies :=
        noAddons\<lparr>ExternalDNS := Some True, FSX := Some True, EFS := Some True\<rparr>\<rparr>)
     False False) = None \<and>
   statementNames (newCalls []
     (fst (createRole iamDecls [] \<lparr>WithOIDC = None\<rparr>
        (plainConfig\<lparr>WithAddonPolicies :=
           noAddons\<lparr>ExternalDNS := Some True, FSX := Some True, EFS := Some True\<rparr>\<rparr>)
        False False))) =
     [''PolicyExternalDNSChangeSet'', ''PolicyExternalDNSHostedZones'', ''PolicyFSX'',
      ''PolicyServiceLinkRole'', ''PolicyEFS'', ''PolicyEFSEC2''] \<and>
   distinct (statementNames (newCalls []
     (fst (createRole iamDecls [] \<lparr>WithOIDC = None\<rparr>
        (plainConfig\<lparr>WithAddonPolicies :=
           noAddons\<lparr>ExternalDNS := Some True, FSX := Some True, EFS := Some True\<rparr>\<rparr>)
        False False))))"
proof -
  let ?cfg = "plainConfig\<lparr>WithAddonPolicies :=
        noAddons\<lparr>ExternalDNS := Some True, FSX := Some True, EFS := Some True\<rparr>\<rparr>"
  let ?c = "\<lparr>WithOIDC = None\<rparr>"
  have s: "snd (createRole iamDecls [] ?c ?cfg False False) = None"
    by code_simp
  have r: "createRole iamDecls [] ?c ?cfg False False =
             (fst (createRole iamDecls [] ?c ?cfg False False), None)"
    by (rule prod_eqI) (simp_all only: fst_conv snd_conv s)
  have n: "statementNames (newCalls [] (fst (createRole iamDecls [] ?c ?cfg False False))) =
     [''PolicyExternalDNSChangeSet'', ''PolicyExternalDNSHostedZones'', ''PolicyFSX'',
      ''PolicyServiceLinkRole'', ''PolicyEFS'', ''PolicyEFSEC2'']"
    by code_simp
  have d: "distinct (statementNames
             (newCalls [] (fst (createRole iamDecls [] ?c ?cfg False False))))"
    by (rule statement_names_distinct [OF r])
  show ?thesis by (intro conjI s n d)
qed

section \<open>The ARN normalizer\<close>

text \<open>
  Claim C9.  For every input string, \<open>NormalizeARN\<close> returns the input unchanged when it
  contains no slash; otherwise it returns the text before the first slash, one slash, and
  the text after the last slash.  In particular the ARN
  \<open>arn:aws:iam::123:role/custom/path/MyRole\<close> becomes \<open>arn:aws:iam::123:role/MyRole\<close>.
  The function is total (it is a terminating recursive function and has no error result),
  and the empty string is returned unchanged.
\<close>

theorem NormalizeARN_first_and_last_segment:
  "(CHR ''/'' \<notin> set arn \<longrightarrow> NormalizeARN arn = arn) \<and>
   (CHR ''/'' \<in> set arn \<longrightarrow>
      NormalizeARN arn =
        takeWhile (\<lambda>c. c \<noteq> CHR ''/'') arn @ ''/'' @
        rev (takeWhile (\<lambda>c. c \<noteq> CHR ''/'') (rev arn))) \<and>
   NormalizeARN ''arn:aws:iam::123:role/custom/path/MyRole'' = ''arn:aws:iam::123:role/MyRole'' \<and>
   NormalizeARN [] = []"
proof -
  let ?parts = "Split arn (CHR ''/'')"
  have ne: "?parts \<noteq> []" by (rule Split_nonempty)
  have a: "CHR ''/'' \<notin> set arn \<Longrightarrow> NormalizeARN arn = arn"
    using Split_length [of arn "CHR ''/''"] by (simp add: NormalizeARN_def Let_def)
  have b: "NormalizeARN arn =
        takeWhile (\<lambda>c. c \<noteq> CHR ''/'') arn @ ''/'' @
        rev (takeWhile (\<lambda>c. c \<noteq> CHR ''/'') (rev arn))" if "CHR ''/'' \<in> set arn"
  proof -
    from that have "\<not> length ?parts \<le> 1" using Split_length [of arn "CHR ''/''"] by simp
    then have "NormalizeARN arn = ?parts ! 0 @ ''/'' @ ?parts ! (length ?parts - 1)"
      by (simp add: NormalizeARN_def Let_def)
    moreover have "?parts ! 0 = hd ?parts" using ne by (simp add: hd_conv_nth)
    moreover have "?parts ! (length ?parts - 1) = last ?parts" using ne by (simp add: last_conv_nth)
    ultimately show ?thesis by (simp add: Split_hd Split_last)
  qed
  have c: "NormalizeARN ''arn:aws:iam::123:role/custom/path/MyRole'' = ''arn:aws:iam::123:role/MyRole''"
    by (simp add: NormalizeARN_def Split.simps)
  have d: "NormalizeARN [] = []" by (simp add: NormalizeARN_def Split_Nil)
  from a b c d show ?thesis by blast
qed

text \<open>The theorem at an input without a slash and at an input with two.\<close>

theorem NormalizeARN_first_and_last_segment_witness:
  "CHR ''/'' \<notin> set ''arn:aws:iam::123:role'' \<and>
   NormalizeARN ''arn:aws:iam::123:role'' = ''arn:aws:iam::123:role'' \<and>
   CHR ''/'' \<in> set ''role/a/b'' \<and> NormalizeARN ''role/a/b'' = ''role/b''"
  using NormalizeARN_first_and_last_segment [of "''arn:aws:iam::123:role''"]
    NormalizeARN_first_and_last_segment [of "''role/a/b''"]
  by simp

end
